theory Spec2Isabelle
  imports Main "HOL-Library.Sublist"
begin

section \<open>The coding-task server: a model of coder/server.py\<close>

text \<open>
  Python strings are modelled as \<open>string\<close>, one \<open>char\<close> per code point (code points
  below 256). Python integers are \<open>int\<close>. Every external effect of the program (a
  print, a file-system call, a subprocess, an HTTP request) is an event of a trace, in
  the order the code performs it.
\<close>

subsection \<open>Constants\<close>

definition APP_CHAT_URL :: string where
  "APP_CHAT_URL = ''http://app:3001/chat''"

definition CODER_ENV_PATH :: string where
  "CODER_ENV_PATH = ''/run/coder-env''"

definition SYSTEM_PROMPT_PATH :: string where
  "SYSTEM_PROMPT_PATH = ''/app/system-prompt.txt''"

definition PLUGINS_DIR :: string where
  "PLUGINS_DIR = ''/plugins/''"

definition TASK_TIMEOUT_SECONDS :: int where
  "TASK_TIMEOUT_SECONDS = 600"

definition MAX_USERNAME_LENGTH :: nat where
  "MAX_USERNAME_LENGTH = 32"

definition CODER_CREDENTIALS_PATH :: string where
  "CODER_CREDENTIALS_PATH = ''/home/coder/.claude/.credentials.json''"

subsection \<open>The plugin-name pattern\<close>

text \<open>
  The character class \<open>[a-z0-9-]\<close>, by code point: \<open>a\<close> is 97, \<open>z\<close> is 122, \<open>0\<close> is 48,
  \<open>9\<close> is 57 and the hyphen is 45.
\<close>

definition plugin_name_char :: "char \<Rightarrow> bool" where
  "plugin_name_char c =
     (let n = (of_char c :: nat)
      in (97 \<le> n \<and> n \<le> 122) \<or> (48 \<le> n \<and> n \<le> 57) \<or> n = 45)"

text \<open>
  \<open>PLUGIN_NAME_RE.match(s)\<close> for \<open>re.compile(r"^[a-z0-9-]+$")\<close>, compiled without
  flags. In Python's \<open>re\<close>, \<open>$\<close> matches at the end of the string and also just before
  a newline that is the last character of the string, so the part the class has to cover
  is the string without one trailing newline.
\<close>

definition PLUGIN_NAME_RE_match :: "string \<Rightarrow> bool" where
  "PLUGIN_NAME_RE_match s =
     (let body = (if s \<noteq> [] \<and> last s = CHR 0x0A then butlast s else s)
      in body \<noteq> [] \<and> list_all plugin_name_char body)"

text \<open>
  The specification's reading of the pattern, as a match over the whole string: one or
  more characters, each a lowercase letter, a digit or a hyphen.
\<close>

definition spec_plugin_name_whole :: "string \<Rightarrow> bool" where
  "spec_plugin_name_whole s = (s \<noteq> [] \<and> list_all plugin_name_char s)"

subsection \<open>The account name\<close>

text \<open>\<open>s.replace('-', '_')\<close>\<close>

definition replace_hyphens :: "string \<Rightarrow> string" where
  "replace_hyphens s = map (\<lambda>c. if c = CHR ''-'' then CHR ''_'' else c) s"

text \<open>\<open>f"plug_{plugin_name.replace('-', '_')}"[:MAX_USERNAME_LENGTH]\<close>, lines 31 and 150.\<close>

definition username_of :: "string \<Rightarrow> string" where
  "username_of plugin_name = take MAX_USERNAME_LENGTH (''plug_'' @ replace_hyphens plugin_name)"

subsection \<open>Python strings\<close>

text \<open>
  \<open>str.isspace\<close> on one code point below 256: the characters \<open>str.strip()\<close> removes.
\<close>

definition py_isspace :: "char \<Rightarrow> bool" where
  "py_isspace c =
     (let n = (of_char c :: nat)
      in (9 \<le> n \<and> n \<le> 13) \<or> (28 \<le> n \<and> n \<le> 32) \<or> n = 133 \<or> n = 160)"

definition py_strip :: "string \<Rightarrow> string" where
  "py_strip s = rev (dropWhile py_isspace (rev (dropWhile py_isspace s)))"

text \<open>\<open>sep.join(xs)\<close>\<close>

fun py_join :: "string \<Rightarrow> string list \<Rightarrow> string" where
  "py_join sep [] = []"
| "py_join sep [x] = x"
| "py_join sep (x # y # ys) = x @ sep @ py_join sep (y # ys)"

text \<open>\<open>s.split(c)\<close> for a separator of one character.\<close>

fun py_split :: "char \<Rightarrow> string \<Rightarrow> string list" where
  "py_split c [] = [[]]"
| "py_split c (x # xs) =
     (if x = c then [] # py_split c xs
      else (case py_split c xs of [] \<Rightarrow> [[x]] | w # ws \<Rightarrow> (x # w) # ws))"

text \<open>\<open>str(n)\<close> for an integer: decimal digits, with a minus sign when negative.\<close>

definition digit_char :: "nat \<Rightarrow> char" where
  "digit_char d = char_of (48 + d)"

function str_nat :: "nat \<Rightarrow> string" where
  "str_nat n = (if n < 10 then [digit_char n] else str_nat (n div 10) @ [digit_char (n mod 10)])"
  by pat_completeness auto
termination
  by (relation "measure id") auto

declare str_nat.simps [simp del]

definition py_str_int :: "int \<Rightarrow> string" where
  "py_str_int i = (if i < 0 then CHR ''-'' # str_nat (nat (- i)) else str_nat (nat i))"

text \<open>\<open>repr(s)\<close> for a string of code points below 256.\<close>

definition hex_digit :: "nat \<Rightarrow> char" where
  "hex_digit d = (if d < 10 then char_of (48 + d) else char_of (87 + d))"

definition py_repr_char :: "char \<Rightarrow> char \<Rightarrow> string" where
  "py_repr_char quote c =
     (let n = (of_char c :: nat)
      in if c = quote \<or> c = CHR 0x5C then [CHR 0x5C, c]
         else if n = 9 then [CHR 0x5C, CHR ''t'']
         else if n = 10 then [CHR 0x5C, CHR ''n'']
         else if n = 13 then [CHR 0x5C, CHR ''r'']
         else if n < 32 \<or> (127 \<le> n \<and> n \<le> 160) \<or> n = 173
           then [CHR 0x5C, CHR ''x'', hex_digit (n div 16), hex_digit (n mod 16)]
         else [c])"

definition py_repr :: "string \<Rightarrow> string" where
  "py_repr s =
     (let quote = (if CHR 0x27 \<in> set s \<and> CHR 0x22 \<notin> set s then CHR 0x22 else CHR 0x27)
      in [quote] @ concat (map (py_repr_char quote) s) @ [quote])"

subsection \<open>Exceptions\<close>

text \<open>
  An exception is its class and its description, the text \<open>str(error)\<close> gives. Every
  class below is a subclass of \<open>Exception\<close>.
\<close>

datatype exn_class =
    ValueError | KeyError | TypeError | AttributeError | JSONDecodeError
  | FileNotFoundError | NotADirectoryError | IsADirectoryError | FileExistsError
  | SameFileError | OSError | TimeoutExpired | HTTPError | URLError | OtherError

datatype exn = Exn (exn_class_of: exn_class) (py_str_exn: string)

subsection \<open>JSON values\<close>

text \<open>
  What \<open>json.loads\<close> returns. An object is the Python dict, as the list of its items; a
  float is kept as whether it is zero and the text \<open>repr\<close> gives for it.
\<close>

datatype json =
    JNull | JBool bool | JInt int | JFloat bool string | JString string
  | JArray "json list" | JObject "(string \<times> json) list"

text \<open>\<open>repr(v)\<close> and \<open>str(v)\<close> of a value.\<close>

fun py_repr_json :: "json \<Rightarrow> string" where
  "py_repr_json JNull = ''None''"
| "py_repr_json (JBool b) = (if b then ''True'' else ''False'')"
| "py_repr_json (JInt i) = py_str_int i"
| "py_repr_json (JFloat z r) = r"
| "py_repr_json (JString s) = py_repr s"
| "py_repr_json (JArray xs) = ''['' @ py_join '', '' (map py_repr_json xs) @ '']''"
| "py_repr_json (JObject kvs) =
     ''{'' @ py_join '', '' (map (\<lambda>(k, v). py_repr k @ '': '' @ py_repr_json v) kvs) @ ''}''"

definition py_str_json :: "json \<Rightarrow> string" where
  "py_str_json v = (case v of JString s \<Rightarrow> s | _ \<Rightarrow> py_repr_json v)"

text \<open>The truth value of a value, as \<open>if v\<close> and \<open>or\<close> test it.\<close>

definition py_truthy :: "json \<Rightarrow> bool" where
  "py_truthy v =
     (case v of JNull \<Rightarrow> False | JBool b \<Rightarrow> b | JInt i \<Rightarrow> i \<noteq> 0 | JFloat z r \<Rightarrow> \<not> z
      | JString s \<Rightarrow> s \<noteq> [] | JArray xs \<Rightarrow> xs \<noteq> [] | JObject kvs \<Rightarrow> kvs \<noteq> [])"

text \<open>The name \<open>type(v).__name__\<close>, as error messages print it.\<close>

definition py_type_name :: "json \<Rightarrow> string" where
  "py_type_name v =
     (case v of JNull \<Rightarrow> ''NoneType'' | JBool b \<Rightarrow> ''bool'' | JInt i \<Rightarrow> ''int''
      | JFloat z r \<Rightarrow> ''float'' | JString s \<Rightarrow> ''str'' | JArray xs \<Rightarrow> ''list''
      | JObject kvs \<Rightarrow> ''dict'')"

text \<open>\<open>d.get(key, default)\<close> on a dict.\<close>

definition dict_get :: "(string \<times> json) list \<Rightarrow> string \<Rightarrow> json \<Rightarrow> json" where
  "dict_get d key dflt = (case map_of d key of None \<Rightarrow> dflt | Some v \<Rightarrow> v)"

text \<open>
  \<open>json.dumps(v)\<close> with its defaults: separators \<open>", "\<close> and \<open>": "\<close>, every
  character outside the printable ASCII range escaped, and a float written as \<open>repr\<close>
  writes it, except for the infinities and not-a-number, which come out as \<open>Infinity\<close>,
  \<open>-Infinity\<close> and \<open>NaN\<close>.
\<close>

definition json_escape_char :: "char \<Rightarrow> string" where
  "json_escape_char c =
     (let n = (of_char c :: nat)
      in if n = 34 then [CHR 0x5C, CHR 0x22]
         else if n = 92 then [CHR 0x5C, CHR 0x5C]
         else if n = 10 then [CHR 0x5C, CHR ''n'']
         else if n = 13 then [CHR 0x5C, CHR ''r'']
         else if n = 9 then [CHR 0x5C, CHR ''t'']
         else if n = 8 then [CHR 0x5C, CHR ''b'']
         else if n = 12 then [CHR 0x5C, CHR ''f'']
         else if n < 32 \<or> 126 < n
           then [CHR 0x5C, CHR ''u'', CHR ''0'', CHR ''0'', hex_digit (n div 16), hex_digit (n mod 16)]
         else [c])"

definition json_dumps_str :: "string \<Rightarrow> string" where
  "json_dumps_str s = [CHR 0x22] @ concat (map json_escape_char s) @ [CHR 0x22]"

fun json_dumps :: "json \<Rightarrow> string" where
  "json_dumps JNull = ''null''"
| "json_dumps (JBool b) = (if b then ''true'' else ''false'')"
| "json_dumps (JInt i) = py_str_int i"
| "json_dumps (JFloat z r) =
     (if r = ''inf'' then ''Infinity'' else if r = ''-inf'' then ''-Infinity''
      else if r = ''nan'' then ''NaN'' else r)"
| "json_dumps (JString s) = json_dumps_str s"
| "json_dumps (JArray xs) = ''['' @ py_join '', '' (map json_dumps xs) @ '']''"
| "json_dumps (JObject kvs) =
     ''{'' @ py_join '', '' (map (\<lambda>(k, v). json_dumps_str k @ '': '' @ json_dumps v) kvs) @ ''}''"

subsection \<open>Paths\<close>

text \<open>\<open>os.path.join(a, b)\<close> (posixpath).\<close>

definition os_path_join :: "string \<Rightarrow> string \<Rightarrow> string" where
  "os_path_join a b =
     (if b \<noteq> [] \<and> hd b = CHR ''/'' then b
      else if a = [] \<or> last a = CHR ''/'' then a @ b
      else a @ ''/'' @ b)"

text \<open>\<open>os.path.basename(p)\<close>: what follows the last slash.\<close>

definition os_path_basename :: "string \<Rightarrow> string" where
  "os_path_basename p = last (py_split CHR ''/'' p)"

definition is_abs :: "string \<Rightarrow> bool" where
  "is_abs p = (p \<noteq> [] \<and> hd p = CHR ''/'')"

text \<open>The components the kernel walks: empty ones and \<open>.\<close> are skipped.\<close>

definition path_components :: "string \<Rightarrow> string list" where
  "path_components p = filter (\<lambda>c. c \<noteq> [] \<and> c \<noteq> ''.'') (py_split CHR ''/'' p)"

subsection \<open>The file system\<close>

text \<open>
  A file system maps the location of a directory entry (the names from the root) to the
  node there: a regular file with its content, a directory, or a symbolic link with its
  target text. The process runs as root (uid 0, gid 0) with umask 022, so no call fails
  for lack of permission; a relative path is taken from the root.
\<close>

record meta =
  st_uid :: int
  st_gid :: int
  st_mode :: nat

datatype node = File string meta | Dir meta | Link string

type_synonym path = "string list"

type_synonym filesys = "path \<Rightarrow> node option"

datatype errno = ENOENT | ENOTDIR | ELOOP

text \<open>
  Path resolution. \<open>cur\<close> is the location of the directory reached so far. A symbolic
  link in the middle of a path is always followed, the last component only when
  \<open>follow\<close> is set; at most \<open>fuel\<close> links are followed (Linux allows 40). The result
  is the location of the entry the path names, which may not exist yet when all of its
  parents do.
\<close>

fun walk :: "nat \<Rightarrow> bool \<Rightarrow> filesys \<Rightarrow> path \<Rightarrow> string list \<Rightarrow> errno + path" where
  "walk fuel follow fs cur [] = Inr cur"
| "walk fuel follow fs cur (c # cs) =
     (if c = ''..'' then walk fuel follow fs (butlast cur) cs
      else (case fs (cur @ [c]) of
          None \<Rightarrow> if cs = [] then Inr (cur @ [c]) else Inl ENOENT
        | Some (File content m) \<Rightarrow> if cs = [] then Inr (cur @ [c]) else Inl ENOTDIR
        | Some (Dir m) \<Rightarrow> walk fuel follow fs (cur @ [c]) cs
        | Some (Link target) \<Rightarrow>
            if cs = [] \<and> \<not> follow then Inr (cur @ [c])
            else (case fuel of
                0 \<Rightarrow> Inl ELOOP
              | Suc k \<Rightarrow>
                  walk k follow fs (if is_abs target then [] else cur)
                    (path_components target @ cs))))"

definition locate :: "bool \<Rightarrow> filesys \<Rightarrow> string \<Rightarrow> errno + path" where
  "locate follow fs p = (if p = [] then Inl ENOENT else walk 40 follow fs [] (path_components p))"

text \<open>The \<open>OSError\<close> subclass and text Python raises for an error number and a path.\<close>

definition os_error :: "errno \<Rightarrow> string \<Rightarrow> exn" where
  "os_error e p =
     (case e of
        ENOENT \<Rightarrow> Exn FileNotFoundError (''[Errno 2] No such file or directory: '' @ py_repr p)
      | ENOTDIR \<Rightarrow> Exn NotADirectoryError (''[Errno 20] Not a directory: '' @ py_repr p)
      | ELOOP \<Rightarrow> Exn OSError (''[Errno 40] Too many levels of symbolic links: '' @ py_repr p))"

text \<open>\<open>os.lstat\<close> and \<open>os.stat\<close>: the node a path names, without and with following a
  final link.\<close>

definition node_at :: "bool \<Rightarrow> filesys \<Rightarrow> string \<Rightarrow> exn + (path \<times> node)" where
  "node_at follow fs p =
     (case locate follow fs p of
        Inl e \<Rightarrow> Inl (os_error e p)
      | Inr loc \<Rightarrow> (case fs loc of None \<Rightarrow> Inl (os_error ENOENT p) | Some n \<Rightarrow> Inr (loc, n)))"

definition os_stat :: "filesys \<Rightarrow> string \<Rightarrow> exn + meta" where
  "os_stat fs p =
     (case node_at True fs p of
        Inl e \<Rightarrow> Inl e
      | Inr (loc, File content m) \<Rightarrow> Inr m
      | Inr (loc, Dir m) \<Rightarrow> Inr m
      | Inr (loc, Link target) \<Rightarrow> Inl (os_error ELOOP p))"

text \<open>\<open>os.path.islink\<close>, \<open>os.path.exists\<close> and \<open>os.path.isdir\<close> return False on any
  \<open>OSError\<close>.\<close>

definition os_path_islink :: "filesys \<Rightarrow> string \<Rightarrow> bool" where
  "os_path_islink fs p = (case node_at False fs p of Inr (loc, Link target) \<Rightarrow> True | _ \<Rightarrow> False)"

definition os_path_exists :: "filesys \<Rightarrow> string \<Rightarrow> bool" where
  "os_path_exists fs p = (case os_stat fs p of Inl e \<Rightarrow> False | Inr m \<Rightarrow> True)"

definition os_path_isdir :: "filesys \<Rightarrow> string \<Rightarrow> bool" where
  "os_path_isdir fs p = (case node_at True fs p of Inr (loc, Dir m) \<Rightarrow> True | _ \<Rightarrow> False)"

text \<open>\<open>os.remove(p)\<close>: unlink the entry itself; a final link is not followed.\<close>

definition fs_remove :: "string \<Rightarrow> filesys \<Rightarrow> exn + filesys" where
  "fs_remove p fs =
     (case node_at False fs p of
        Inl e \<Rightarrow> Inl e
      | Inr (loc, Dir m) \<Rightarrow> Inl (Exn IsADirectoryError (''[Errno 21] Is a directory: '' @ py_repr p))
      | Inr (loc, n) \<Rightarrow> Inr (fs(loc := None)))"

text \<open>\<open>os.mkdir(p)\<close>, for the default mode 0o777 under umask 022: mode 0o755, which is 493.\<close>

definition fs_mkdir :: "string \<Rightarrow> filesys \<Rightarrow> exn + filesys" where
  "fs_mkdir p fs =
     (case locate False fs p of
        Inl e \<Rightarrow> Inl (os_error e p)
      | Inr loc \<Rightarrow>
          (case fs loc of
             None \<Rightarrow> Inr (fs(loc \<mapsto> Dir \<lparr>st_uid = 0, st_gid = 0, st_mode = 493\<rparr>))
           | Some n \<Rightarrow> Inl (Exn FileExistsError (''[Errno 17] File exists: '' @ py_repr p))))"

text \<open>
  \<open>os.makedirs(p, exist_ok=True)\<close>: each leading part of the path that does not exist is
  created, shortest first; the last \<open>mkdir\<close> may fail only when the path is not a
  directory afterwards.
\<close>

definition path_prefixes :: "string \<Rightarrow> string list" where
  "path_prefixes p =
     (let cs = filter (\<lambda>c. c \<noteq> []) (py_split CHR ''/'' p)
      in map (\<lambda>k. (if is_abs p then ''/'' else []) @ py_join ''/'' (take k cs)) [1..<Suc (length cs)])"

fun makedirs_each :: "string list \<Rightarrow> filesys \<Rightarrow> exn + filesys" where
  "makedirs_each [] fs = Inr fs"
| "makedirs_each [p] fs =
     (case fs_mkdir p fs of
        Inr fs' \<Rightarrow> Inr fs'
      | Inl e \<Rightarrow> if os_path_isdir fs p then Inr fs else Inl e)"
| "makedirs_each (p # q # ps) fs =
     (if os_path_exists fs p then makedirs_each (q # ps) fs
      else (case fs_mkdir p fs of
          Inr fs' \<Rightarrow> makedirs_each (q # ps) fs'
        | Inl e \<Rightarrow> if exn_class_of e = FileExistsError then makedirs_each (q # ps) fs else Inl e))"

definition fs_makedirs :: "string \<Rightarrow> filesys \<Rightarrow> exn + filesys" where
  "fs_makedirs p fs =
     (if p = [] then Inl (os_error ENOENT p) else makedirs_each (path_prefixes p) fs)"

text \<open>\<open>os.chown(p, uid, gid)\<close> and \<open>os.chmod(p, mode)\<close> follow a final link; an id of -1
  leaves that id as it is.\<close>

definition set_owner :: "int \<Rightarrow> int \<Rightarrow> meta \<Rightarrow> meta" where
  "set_owner uid gid m =
     m\<lparr>st_uid := (if uid = - 1 then st_uid m else uid), st_gid := (if gid = - 1 then st_gid m else gid)\<rparr>"

definition update_meta :: "(meta \<Rightarrow> meta) \<Rightarrow> string \<Rightarrow> filesys \<Rightarrow> exn + filesys" where
  "update_meta f p fs =
     (case node_at True fs p of
        Inl e \<Rightarrow> Inl e
      | Inr (loc, File content m) \<Rightarrow> Inr (fs(loc \<mapsto> File content (f m)))
      | Inr (loc, Dir m) \<Rightarrow> Inr (fs(loc \<mapsto> Dir (f m)))
      | Inr (loc, Link target) \<Rightarrow> Inl (os_error ELOOP p))"

definition fs_chown :: "string \<Rightarrow> int \<Rightarrow> int \<Rightarrow> filesys \<Rightarrow> exn + filesys" where
  "fs_chown p uid gid fs = update_meta (set_owner uid gid) p fs"

definition fs_chmod :: "string \<Rightarrow> nat \<Rightarrow> filesys \<Rightarrow> exn + filesys" where
  "fs_chmod p mode fs = update_meta (\<lambda>m. m\<lparr>st_mode := mode\<rparr>) p fs"

text \<open>
  \<open>shutil.copy2(src, dst)\<close>: a destination that is a directory stands for the file of
  the source's name inside it; copying a file onto itself raises \<open>SameFileError\<close>; the
  source is opened for reading and the destination for writing (created when absent,
  truncated otherwise), both through links; then the mode is copied.
\<close>

definition fs_copy2 :: "string \<Rightarrow> string \<Rightarrow> filesys \<Rightarrow> exn + filesys" where
  "fs_copy2 src dst0 fs =
     (let dst = (if os_path_isdir fs dst0 then os_path_join dst0 (os_path_basename src) else dst0)
      in case (node_at True fs src, node_at True fs dst) of
           (Inr (sloc, sn), Inr (dloc, dn)) \<Rightarrow>
             if sloc = dloc
             then Inl (Exn SameFileError (py_repr src @ '' and '' @ py_repr dst @ '' are the same file''))
             else (case sn of
                 File content m \<Rightarrow>
                   (case dn of
                      File content' m' \<Rightarrow> Inr (fs(dloc \<mapsto> File content (m'\<lparr>st_mode := st_mode m\<rparr>)))
                    | _ \<Rightarrow> Inl (Exn IsADirectoryError (''[Errno 21] Is a directory: '' @ py_repr dst)))
               | _ \<Rightarrow> Inl (Exn IsADirectoryError (''[Errno 21] Is a directory: '' @ py_repr src)))
         | (Inr (sloc, sn), Inl de) \<Rightarrow>
             (case sn of
                File content m \<Rightarrow>
                  (case locate True fs dst of
                     Inl e \<Rightarrow> Inl (os_error e dst)
                   | Inr dloc \<Rightarrow>
                       Inr (fs(dloc \<mapsto> File content \<lparr>st_uid = 0, st_gid = 0, st_mode = st_mode m\<rparr>)))
              | _ \<Rightarrow> Inl (Exn IsADirectoryError (''[Errno 21] Is a directory: '' @ py_repr src)))
         | (Inl se, _) \<Rightarrow> Inl se)"

text \<open>
  \<open>shutil.rmtree(p, ignore_errors=True)\<close>: a directory is removed with every entry
  below it (links inside it are unlinked, never followed); a path that is a link, a
  regular file, or missing is an error that is ignored and changes nothing.
\<close>

definition fs_rmtree_ignore_errors :: "string \<Rightarrow> filesys \<Rightarrow> filesys" where
  "fs_rmtree_ignore_errors p fs =
     (case node_at False fs p of
        Inr (loc, Dir m) \<Rightarrow> (\<lambda>q. if prefix loc q then None else fs q)
      | _ \<Rightarrow> fs)"

text \<open>Opening a text file for reading and reading all of it.\<close>

definition fs_read :: "filesys \<Rightarrow> string \<Rightarrow> exn + string" where
  "fs_read fs p =
     (case node_at True fs p of
        Inl e \<Rightarrow> Inl e
      | Inr (loc, File content m) \<Rightarrow> Inr content
      | Inr (loc, n) \<Rightarrow> Inl (Exn IsADirectoryError (''[Errno 21] Is a directory: '' @ py_repr p)))"

subsection \<open>The world outside the program\<close>

text \<open>The arguments of the \<open>subprocess.run\<close> call that launches the agent.\<close>

record exec_req =
  argv :: "string list"
  cwd :: string
  timeout :: int
  user :: int
  grp :: int
  envp :: "(string \<times> string) list"

text \<open>The \<open>urllib.request.Request\<close> handed to \<open>urlopen\<close>.\<close>

record http_req =
  url :: string
  body :: string
  headers :: "(string \<times> string) list"
  http_method :: string

text \<open>
  What a \<open>subprocess.run\<close> call comes to: the program exits with a return code, its
  standard output and its standard error (as decoded text), or the call raises; the
  agent's run may also exceed its timeout.
\<close>

datatype proc_outcome = Completed int string string | Timed_out | Proc_raise exn

text \<open>
  The two account-tool calls pass no timeout and read only the return code and the
  standard error, decoded with \<open>errors='replace'\<close>, which cannot fail.
\<close>

datatype tool_outcome = Tool_exit int string | Tool_raise exn

datatype fs_call =
    Remove string | Makedirs string | Copy2 string string | Chown string int int
  | Chmod string nat | Rmtree string

datatype event =
    Print string
  | Fs fs_call
  | Run_tool "string list"
  | Run_agent exec_req
  | Urlopen http_req
  | Send_response nat "(string \<times> string) list" string
  | Thread_start json json string

text \<open>
  The behaviour of what the program calls and does not define: the account tools, the
  agent (which may change the file system while it runs), \<open>json.loads\<close>, and the
  upstream service behind \<open>urlopen\<close>, which returns the status
  of a response it accepts and raises \<open>HTTPError\<close> or \<open>URLError\<close> otherwise.
\<close>

record host =
  run_tool :: "string list \<Rightarrow> tool_outcome"
  run_agent :: "exec_req \<Rightarrow> filesys \<Rightarrow> proc_outcome \<times> filesys"
  json_loads :: "string \<Rightarrow> exn + json"
  urlopen :: "http_req \<Rightarrow> exn + int"

text \<open>The state a run threads through: the file system and the trace of events so far.\<close>

record world =
  fs :: filesys
  trace :: "event list"

text \<open>
  A statement of the program takes the world and gives its value or the exception it
  raises, with the world it leaves.
\<close>

type_synonym 'a prog = "world \<Rightarrow> (exn + 'a) \<times> world"

definition return :: "'a \<Rightarrow> 'a prog" where
  "return x = (\<lambda>w. (Inr x, w))"

definition raise :: "exn \<Rightarrow> 'a prog" where
  "raise e = (\<lambda>w. (Inl e, w))"

text \<open>A computation without effects, as a statement: its value, or the exception it raises.\<close>

definition lift :: "exn + 'a \<Rightarrow> 'a prog" where
  "lift r = (case r of Inl e \<Rightarrow> raise e | Inr x \<Rightarrow> return x)"

definition seq :: "'a prog \<Rightarrow> ('a \<Rightarrow> 'b prog) \<Rightarrow> 'b prog" where
  "seq m f = (\<lambda>w. case m w of (Inl e, w') \<Rightarrow> (Inl e, w') | (Inr x, w') \<Rightarrow> f x w')"

definition emit :: "event \<Rightarrow> unit prog" where
  "emit ev = (\<lambda>w. (Inr (), w\<lparr>trace := trace w @ [ev]\<rparr>))"

definition print :: "string \<Rightarrow> unit prog" where
  "print s = emit (Print s)"

text \<open>A file-system call that changes the file system: recorded, then performed.\<close>

definition fs_do :: "fs_call \<Rightarrow> (filesys \<Rightarrow> exn + filesys) \<Rightarrow> unit prog" where
  "fs_do c f =
     seq (emit (Fs c))
       (\<lambda>_ w. case f (fs w) of Inl e \<Rightarrow> (Inl e, w) | Inr fs' \<Rightarrow> (Inr (), w\<lparr>fs := fs'\<rparr>))"

text \<open>A file-system call that only reads.\<close>

definition fs_ask :: "(filesys \<Rightarrow> 'a) \<Rightarrow> 'a prog" where
  "fs_ask q = (\<lambda>w. (Inr (q (fs w)), w))"

definition fs_try :: "(filesys \<Rightarrow> exn + 'a) \<Rightarrow> 'a prog" where
  "fs_try q = (\<lambda>w. (q (fs w), w))"

definition os_remove :: "string \<Rightarrow> unit prog" where
  "os_remove p = fs_do (Remove p) (fs_remove p)"

definition os_makedirs :: "string \<Rightarrow> unit prog" where
  "os_makedirs p = fs_do (Makedirs p) (fs_makedirs p)"

definition shutil_copy2 :: "string \<Rightarrow> string \<Rightarrow> unit prog" where
  "shutil_copy2 src dst = fs_do (Copy2 src dst) (fs_copy2 src dst)"

definition os_chown :: "string \<Rightarrow> int \<Rightarrow> int \<Rightarrow> unit prog" where
  "os_chown p uid gid = fs_do (Chown p uid gid) (fs_chown p uid gid)"

definition os_chmod :: "string \<Rightarrow> nat \<Rightarrow> unit prog" where
  "os_chmod p mode = fs_do (Chmod p mode) (fs_chmod p mode)"

definition shutil_rmtree_ignore_errors :: "string \<Rightarrow> unit prog" where
  "shutil_rmtree_ignore_errors p = fs_do (Rmtree p) (\<lambda>fs. Inr (fs_rmtree_ignore_errors p fs))"

subsection \<open>setup\_plugin\_credentials and teardown\_plugin\_credentials\<close>

text \<open>Lines 52 to 64. The modes 0o700 and 0o600 are 448 and 384.\<close>

definition setup_plugin_credentials :: "string \<Rightarrow> int \<Rightarrow> int \<Rightarrow> unit prog" where
  "setup_plugin_credentials plugin_dir uid gid =
     (let plugin_claude_dir = os_path_join plugin_dir ''.claude'';
          plugin_credentials = os_path_join plugin_claude_dir ''.credentials.json''
      in seq (fs_ask (\<lambda>fs. os_path_islink fs plugin_claude_dir)) (\<lambda>is_link.
         seq (if is_link then os_remove plugin_claude_dir else return ()) (\<lambda>_.
         seq (os_makedirs plugin_claude_dir) (\<lambda>_.
         seq (shutil_copy2 CODER_CREDENTIALS_PATH plugin_credentials) (\<lambda>_.
         seq (os_chown plugin_claude_dir uid gid) (\<lambda>_.
         seq (os_chmod plugin_claude_dir 448) (\<lambda>_.
         seq (os_chown plugin_credentials uid gid) (\<lambda>_.
         os_chmod plugin_credentials 384))))))))"

text \<open>Lines 67 to 78.\<close>

definition teardown_plugin_credentials :: "string \<Rightarrow> unit prog" where
  "teardown_plugin_credentials plugin_dir =
     (let plugin_claude_dir = os_path_join plugin_dir ''.claude'';
          plugin_credentials = os_path_join plugin_claude_dir ''.credentials.json''
      in seq (fs_ask (\<lambda>fs. os_path_islink fs plugin_claude_dir)) (\<lambda>is_link.
         if is_link then os_remove plugin_claude_dir
         else
           seq (fs_ask (\<lambda>fs. os_path_exists fs plugin_credentials)) (\<lambda>cred_exists.
           seq (if cred_exists then shutil_copy2 plugin_credentials CODER_CREDENTIALS_PATH
                else return ()) (\<lambda>_.
           shutil_rmtree_ignore_errors plugin_claude_dir))))"

subsection \<open>ensure\_plugin\_user\<close>

text \<open>\<open>try: body except cls: handler\<close>, for a handler that does not name the exception.\<close>

definition try_except :: "'a prog \<Rightarrow> exn_class \<Rightarrow> 'a prog \<Rightarrow> 'a prog" where
  "try_except m cls handler =
     (\<lambda>w. case m w of
        (Inl e, w') \<Rightarrow> if exn_class_of e = cls then handler w' else (Inl e, w')
      | (Inr x, w') \<Rightarrow> (Inr x, w'))"

text \<open>\<open>subprocess.run(argv, capture_output=True, check=False)\<close> on an account tool.\<close>

definition subprocess_run_tool :: "host \<Rightarrow> string list \<Rightarrow> (int \<times> string) prog" where
  "subprocess_run_tool h args =
     seq (emit (Run_tool args))
       (\<lambda>_. case run_tool h args of
          Tool_exit returncode stderr \<Rightarrow> return (returncode, stderr)
        | Tool_raise e \<Rightarrow> raise e)"

text \<open>Lines 24 to 49.\<close>

definition ensure_plugin_user :: "host \<Rightarrow> string \<Rightarrow> int \<Rightarrow> int \<Rightarrow> unit prog" where
  "ensure_plugin_user h plugin_name uid gid =
     (let username = username_of plugin_name
      in try_except
           (seq (subprocess_run_tool h
                   [''groupadd'', ''--system'', ''--gid'', py_str_int gid, username])
              (\<lambda>group_result.
            seq (if fst group_result \<noteq> 0 \<and> fst group_result \<noteq> 9
                 then print (''[stavrobot-coder] Warning: groupadd exited with code ''
                        @ py_str_int (fst group_result) @ '' for '' @ username @ '': ''
                        @ py_strip (snd group_result))
                 else return ())
              (\<lambda>_.
            seq (subprocess_run_tool h
                   [''useradd'', ''--system'', ''--no-create-home'', ''--uid'', py_str_int uid,
                    ''--gid'', py_str_int gid, username])
              (\<lambda>user_result.
            if fst user_result \<noteq> 0 \<and> fst user_result \<noteq> 9
            then print (''[stavrobot-coder] Warning: useradd exited with code ''
                   @ py_str_int (fst user_result) @ '' for '' @ username @ '': ''
                   @ py_strip (snd user_result))
            else return ()))))
           FileNotFoundError
           (print (''[stavrobot-coder] Warning: useradd/groupadd not available, ''
              @ ''skipping user creation for '' @ username)))"

subsection \<open>read\_coder\_env\<close>

text \<open>
  A text file is read with universal newlines: \<open>\r\n\<close> and \<open>\r\<close> come out as \<open>\n\<close>.
  Iterating over the file gives its lines; the empty piece after a final newline has no
  \<open>=\<close> in it and so changes nothing.
\<close>

fun universal_newlines :: "string \<Rightarrow> string" where
  "universal_newlines [] = []"
| "universal_newlines [c] = (if c = CHR 0x0D then [CHR 0x0A] else [c])"
| "universal_newlines (c # d # cs) =
     (if c = CHR 0x0D \<and> d = CHR 0x0A then CHR 0x0A # universal_newlines cs
      else if c = CHR 0x0D then CHR 0x0A # universal_newlines (d # cs)
      else c # universal_newlines (d # cs))"

text \<open>The body of the loop, lines 86 to 89: \<open>line.split("=", 1)\<close> cuts at the first \<open>=\<close>.\<close>

definition read_env_line :: "(string \<rightharpoonup> string) \<Rightarrow> string \<Rightarrow> (string \<rightharpoonup> string)" where
  "read_env_line env line0 =
     (let line = py_strip line0
      in if CHR ''='' \<in> set line
         then env(takeWhile (\<lambda>c. c \<noteq> CHR ''='') line \<mapsto> tl (dropWhile (\<lambda>c. c \<noteq> CHR ''='') line))
         else env)"

text \<open>Lines 81 to 90.\<close>

definition read_coder_env :: "(string \<rightharpoonup> string) prog" where
  "read_coder_env =
     seq (fs_try (\<lambda>fs. fs_read fs CODER_ENV_PATH))
       (\<lambda>content.
          return (foldl read_env_line Map.empty (py_split (CHR 0x0A) (universal_newlines content))))"

subsection \<open>post\_result\<close>

text \<open>Lines 95 to 108: the request that carries a result text.\<close>

definition result_request :: "string \<Rightarrow> http_req" where
  "result_request message =
     \<lparr>url = APP_CHAT_URL,
      body = json_dumps (JObject [(''message'', JString message),
                                  (''source'', JString ''coder''),
                                  (''sender'', JString ''coder-agent'')]),
      headers = [(''Content-Type'', ''application/json'')],
      http_method = ''POST''\<rparr>"

text \<open>Lines 93 to 110. Nothing in the function catches what \<open>urlopen\<close> raises.\<close>

definition post_result :: "host \<Rightarrow> string \<Rightarrow> unit prog" where
  "post_result h message =
     seq (emit (Urlopen (result_request message)))
       (\<lambda>_. case urlopen h (result_request message) of
          Inl e \<Rightarrow> raise e
        | Inr status \<Rightarrow> print (''[stavrobot-coder] Result posted, HTTP '' @ py_str_int status))"

subsection \<open>run\_coding\_task\<close>

text \<open>Lines 200 to 206.\<close>

definition usage_footer :: string where
  "usage_footer =
     [CHR 0x0A, CHR 0x0A] @ ''---'' @ [CHR 0x0A]
     @ ''To use this plugin:'' @ [CHR 0x0A]
     @ ''- list_plugins: see all available plugins'' @ [CHR 0x0A]
     @ ''- show_plugin(name): see tools in a plugin and their parameters'' @ [CHR 0x0A]
     @ ''- run_plugin_tool(plugin, tool, parameters): run a tool''"

text \<open>
  The \<open>subprocess.run\<close> call of lines 163 to 180: the agent runs on the file system and
  may change it; a run that exceeds the timeout raises \<open>TimeoutExpired\<close>.
\<close>

definition subprocess_run_agent :: "host \<Rightarrow> exec_req \<Rightarrow> (int \<times> string \<times> string) prog" where
  "subprocess_run_agent h req =
     seq (emit (Run_agent req))
       (\<lambda>_ w. case run_agent h req (fs w) of
          (Completed returncode stdout stderr, fs') \<Rightarrow>
            (Inr (returncode, stdout, stderr), w\<lparr>fs := fs'\<rparr>)
        | (Timed_out, fs') \<Rightarrow>
            (Inl (Exn TimeoutExpired
                   (''Command '' @ [CHR 0x27] @ ''['' @ py_join '', '' (map py_repr (argv req)) @ '']''
                    @ [CHR 0x27] @ '' timed out after '' @ py_str_int (timeout req) @ '' seconds'')),
             w\<lparr>fs := fs'\<rparr>)
        | (Proc_raise e, fs') \<Rightarrow> (Inl e, w\<lparr>fs := fs'\<rparr>))"

text \<open>What \<open>for e in v\<close> goes through, or the \<open>TypeError\<close> for a value that is not iterable.\<close>

definition py_iter :: "json \<Rightarrow> exn + json list" where
  "py_iter v =
     (case v of
        JArray xs \<Rightarrow> Inr xs
      | JString s \<Rightarrow> Inr (map (\<lambda>c. JString [c]) s)
      | JObject kvs \<Rightarrow> Inr (map (\<lambda>kv. JString (fst kv)) kvs)
      | _ \<Rightarrow> Inl (Exn TypeError ([CHR 0x27] @ py_type_name v @ [CHR 0x27] @ '' object is not iterable'')))"

text \<open>\<open>v + usage_footer\<close>, which is defined for a string only.\<close>

definition py_add_str :: "json \<Rightarrow> string \<Rightarrow> exn + string" where
  "py_add_str v s =
     (case v of
        JString t \<Rightarrow> Inr (t @ s)
      | JArray xs \<Rightarrow>
          Inl (Exn TypeError (''can only concatenate list (not '' @ [CHR 0x22] @ ''str'' @ [CHR 0x22]
                 @ '') to list''))
      | _ \<Rightarrow>
          Inl (Exn TypeError (''unsupported operand type(s) for +: '' @ [CHR 0x27] @ py_type_name v
                 @ [CHR 0x27] @ '' and '' @ [CHR 0x27] @ ''str'' @ [CHR 0x27])))"

text \<open>
  Lines 187 to 207: from the finished subprocess to the result text, or to the exception
  the parsing raises. Nothing here touches the world.
\<close>

definition parse_output :: "host \<Rightarrow> int \<Rightarrow> string \<Rightarrow> string \<Rightarrow> exn + string" where
  "parse_output h returncode stdout stderr =
     (if py_strip stdout = []
      then (let stderr_snippet = (if stderr \<noteq> [] then take 500 (py_strip stderr) else ''no output'')
            in Inr (''Coding task failed: claude produced no output (exit code ''
                 @ py_str_int returncode @ ''). stderr: '' @ stderr_snippet))
      else (case json_loads h stdout of
          Inl e \<Rightarrow> Inl e
        | Inr (JObject output) \<Rightarrow>
            (let subtype = dict_get output ''subtype'' (JString []);
                 is_error = dict_get output ''is_error'' (JBool False)
             in if subtype \<noteq> JString ''success'' \<or> py_truthy is_error
                then (case py_iter (dict_get output ''errors'' (JArray [])) of
                    Inl e \<Rightarrow> Inl e
                  | Inr errors \<Rightarrow>
                      Inr (''Coding task failed: '' @ py_join [CHR 0x0A] (map py_str_json errors)))
                else py_add_str (dict_get output ''result'' (JString [])) usage_footer)
        | Inr v \<Rightarrow>
            Inl (Exn AttributeError ([CHR 0x27] @ py_type_name v @ [CHR 0x27]
                   @ '' object has no attribute '' @ [CHR 0x27] @ ''get'' @ [CHR 0x27]))))"

text \<open>Lines 129 to 141: up to the point where \<open>credentials_set_up\<close> becomes True.\<close>

definition provision :: "host \<Rightarrow> string \<Rightarrow> string \<Rightarrow> (int \<times> int) prog" where
  "provision h plugin cwd_path =
     seq (fs_try (\<lambda>fs. os_stat fs cwd_path)) (\<lambda>stat.
     seq (ensure_plugin_user h plugin (st_uid stat) (st_gid stat)) (\<lambda>_.
     seq (setup_plugin_credentials cwd_path (st_uid stat) (st_gid stat)) (\<lambda>_.
     return (st_uid stat, st_gid stat))))"

text \<open>Lines 144 to 148: the per-plugin cache directory.\<close>

definition prepare_cache_dir :: "string \<Rightarrow> int \<Rightarrow> int \<Rightarrow> unit prog" where
  "prepare_cache_dir plugin uid gid =
     (let cache_dir = ''/cache/'' @ plugin @ ''/uv''
      in seq (os_makedirs cache_dir) (\<lambda>_.
         seq (os_chown (''/cache/'' @ plugin) uid gid) (\<lambda>_.
         os_chown cache_dir uid gid)))"

text \<open>Lines 150 to 180: the arguments of the call that launches the agent.\<close>

definition agent_request :: "string \<Rightarrow> string \<Rightarrow> string \<Rightarrow> string \<Rightarrow> int \<Rightarrow> int \<Rightarrow> exec_req" where
  "agent_request message plugin model cwd_path uid gid =
     (let username = username_of plugin;
          subprocess_env =
            [(''HOME'', cwd_path),
             (''PATH'', ''/home/coder/.local/bin:/usr/local/bin:/usr/bin:/bin''),
             (''USER'', username),
             (''LOGNAME'', username),
             (''SHELL'', ''/bin/bash''),
             (''UV_CACHE_DIR'', ''/cache/'' @ plugin @ ''/uv''),
             (''UV_PYTHON_INSTALL_DIR'', ''/opt/uv/python'')]
      in \<lparr>argv = [''claude'', ''-p'', message, ''--output-format'', ''json'',
                  ''--dangerously-skip-permissions'',
                  ''--append-system-prompt-file'', SYSTEM_PROMPT_PATH,
                  ''--no-session-persistence'', ''--model'', model],
          cwd = cwd_path, timeout = TASK_TIMEOUT_SECONDS, user = uid, grp = gid,
          envp = subprocess_env\<rparr>)"

text \<open>Lines 161 to 207: the launch of the agent and the reading of its output.\<close>

definition launch :: "host \<Rightarrow> string \<Rightarrow> string \<Rightarrow> string \<Rightarrow> string \<Rightarrow> string \<Rightarrow> int \<Rightarrow> int
    \<Rightarrow> string prog" where
  "launch h task_id message plugin model cwd_path uid gid =
     seq (print (''[stavrobot-coder] Running as uid='' @ py_str_int uid @ '' gid=''
            @ py_str_int gid @ '' in '' @ cwd_path)) (\<lambda>_.
     seq (subprocess_run_agent h (agent_request message plugin model cwd_path uid gid)) (\<lambda>result.
     seq (print (''[stavrobot-coder] Task '' @ task_id @ '' subprocess exited with code ''
            @ py_str_int (fst result))) (\<lambda>_.
     seq (print (''[stavrobot-coder] Task '' @ task_id @ '' stdout: '' @ fst (snd result))) (\<lambda>_.
     seq (if snd (snd result) \<noteq> []
          then print (''[stavrobot-coder] Task '' @ task_id @ '' stderr: '' @ snd (snd result))
          else return ()) (\<lambda>_.
     lift (parse_output h (fst result) (fst (snd result)) (snd (snd result))))))))"

text \<open>Lines 144 to 207: the rest of the \<open>try\<close> block.\<close>

definition execute :: "host \<Rightarrow> string \<Rightarrow> string \<Rightarrow> string \<Rightarrow> string \<Rightarrow> string \<Rightarrow> int \<Rightarrow> int
    \<Rightarrow> string prog" where
  "execute h task_id message plugin model cwd_path uid gid =
     seq (prepare_cache_dir plugin uid gid) (\<lambda>_.
     launch h task_id message plugin model cwd_path uid gid)"

text \<open>
  The two \<open>except\<close> clauses, lines 209 to 214: \<open>TimeoutExpired\<close> first, then any other
  \<open>Exception\<close>. Each prints a line and makes the failure the result text.
\<close>

definition failure_log :: "string \<Rightarrow> exn \<Rightarrow> string" where
  "failure_log task_id e =
     (if exn_class_of e = TimeoutExpired
      then ''[stavrobot-coder] Task '' @ task_id @ '' timed out after ''
             @ py_str_int TASK_TIMEOUT_SECONDS @ ''s''
      else ''[stavrobot-coder] Task '' @ task_id @ '' raised an exception: '' @ py_str_exn e)"

definition failure_text :: "exn \<Rightarrow> string" where
  "failure_text e =
     (if exn_class_of e = TimeoutExpired
      then ''Coding task failed: timed out after '' @ py_str_int TASK_TIMEOUT_SECONDS @ '' seconds.''
      else ''Coding task failed: '' @ py_str_exn e)"

definition on_exception :: "string \<Rightarrow> exn \<Rightarrow> string prog" where
  "on_exception task_id e = seq (print (failure_log task_id e)) (\<lambda>_. return (failure_text e))"

text \<open>
  The \<open>try\<close> statement without its \<open>finally\<close>, lines 128 to 214: it gives the result
  text and the value of \<open>credentials_set_up\<close>, and raises nothing.
\<close>

definition try_block :: "host \<Rightarrow> string \<Rightarrow> string \<Rightarrow> string \<Rightarrow> string \<Rightarrow> string
    \<Rightarrow> (string \<times> bool) prog" where
  "try_block h task_id message plugin model cwd_path =
     (\<lambda>w. case provision h plugin cwd_path w of
        (Inl e, w1) \<Rightarrow> seq (on_exception task_id e) (\<lambda>text. return (text, False)) w1
      | (Inr ids, w1) \<Rightarrow>
          (case execute h task_id message plugin model cwd_path (fst ids) (snd ids) w1 of
             (Inl e, w2) \<Rightarrow> seq (on_exception task_id e) (\<lambda>text. return (text, True)) w2
           | (Inr text, w2) \<Rightarrow> (Inr (text, True), w2)))"

text \<open>Lines 113 to 220.\<close>

definition run_coding_task :: "host \<Rightarrow> string \<Rightarrow> string \<Rightarrow> string \<Rightarrow> unit prog" where
  "run_coding_task h task_id message plugin =
     (if \<not> PLUGIN_NAME_RE_match plugin
      then raise (Exn ValueError (''Invalid plugin name: '' @ py_repr plugin))
      else
        seq (print (''[stavrobot-coder] Starting coding task '' @ task_id @ '' for plugin ''
               @ py_repr plugin)) (\<lambda>_.
        seq read_coder_env (\<lambda>env.
        seq (case env ''MODEL'' of
               None \<Rightarrow> raise (Exn KeyError (py_repr ''MODEL''))
             | Some model \<Rightarrow> return model) (\<lambda>model.
        let cwd_path = os_path_join PLUGINS_DIR plugin in
        seq (try_block h task_id message plugin model cwd_path) (\<lambda>outcome.
        seq (if snd outcome then teardown_plugin_credentials cwd_path else return ()) (\<lambda>_.
        seq (print (''[stavrobot-coder] Posting result for task '' @ task_id @ '', length: ''
               @ py_str_int (int (length (fst outcome))))) (\<lambda>_.
        post_result h (fst outcome))))))))"

subsection \<open>The request handler\<close>

text \<open>
  A request as the handler sees it: its request line, its path, and what lines 240 and
  241 come to, the bytes read from the connection or the exception a malformed
  \<open>Content-Length\<close> raises.
\<close>

record request =
  req_line :: string
  req_path :: string
  req_body :: "exn + string"

text \<open>Lines 226 to 228, for the text \<open>format % args\<close>.\<close>

definition log_message :: "string \<Rightarrow> unit prog" where
  "log_message formatted = print (''[stavrobot-coder] '' @ formatted)"

text \<open>
  Lines 271 to 278. \<open>send_response\<close> first logs the request through \<open>log_request\<close>,
  which calls \<open>log_message\<close> with the request line in double quotes, the status code
  and a hyphen for the size. The headers of the event are the two the handler sets; the
  \<open>Server\<close> and \<open>Date\<close> headers the library adds by itself are not part of it.
\<close>

definition send_json :: "request \<Rightarrow> nat \<Rightarrow> (string \<times> json) list \<Rightarrow> unit prog" where
  "send_json req status data =
     (let body = json_dumps (JObject data)
      in seq (log_message ([CHR 0x22] @ req_line req @ [CHR 0x22] @ '' ''
                @ py_str_int (int status) @ '' -''))
           (\<lambda>_. emit (Send_response status
                        [(''Content-Type'', ''application/json''),
                         (''Content-Length'', py_str_int (int (length body)))]
                        body)))"

text \<open>Lines 230 to 235.\<close>

definition do_GET :: "request \<Rightarrow> unit prog" where
  "do_GET req =
     (if req_path req = ''/health'' then send_json req 200 [(''status'', JString ''ok'')]
      else send_json req 404 [(''error'', JString ''not found'')])"

text \<open>\<open>payload[key]\<close> for a string key.\<close>

definition py_getitem :: "json \<Rightarrow> string \<Rightarrow> exn + json" where
  "py_getitem v key =
     (case v of
        JObject d \<Rightarrow> (case map_of d key of None \<Rightarrow> Inl (Exn KeyError (py_repr key)) | Some x \<Rightarrow> Inr x)
      | JArray xs \<Rightarrow> Inl (Exn TypeError ''list indices must be integers or slices, not str'')
      | JString s \<Rightarrow> Inl (Exn TypeError (''string indices must be integers, not '' @ py_repr ''str''))
      | _ \<Rightarrow> Inl (Exn TypeError ([CHR 0x27] @ py_type_name v @ [CHR 0x27] @ '' object is not subscriptable'')))"

text \<open>
  \<open>message[:100]\<close>: a string and a list can be sliced; a dict raises \<open>TypeError\<close> (before
  Python 3.12; \<open>KeyError\<close> from then on), every other value raises \<open>TypeError\<close>.
\<close>

definition py_slice_100 :: "json \<Rightarrow> exn + json" where
  "py_slice_100 v =
     (case v of
        JString s \<Rightarrow> Inr (JString (take 100 s))
      | JArray xs \<Rightarrow> Inr (JArray (take 100 xs))
      | JObject d \<Rightarrow> Inl (Exn TypeError (''unhashable type: '' @ py_repr ''slice''))
      | _ \<Rightarrow> Inl (Exn TypeError ([CHR 0x27] @ py_type_name v @ [CHR 0x27] @ '' object is not subscriptable'')))"

text \<open>
  Lines 237 to 269. Starting the thread is the event \<open>Thread_start\<close> with the three
  arguments of \<open>run_coding_task\<close>; an exception leaves the handler without a response.
\<close>

definition do_POST :: "host \<Rightarrow> request \<Rightarrow> unit prog" where
  "do_POST h req =
     (if req_path req = ''/code''
      then
        seq (lift (req_body req)) (\<lambda>body.
        seq (lift (json_loads h body)) (\<lambda>payload.
        seq (lift (py_getitem payload ''taskId'')) (\<lambda>task_id.
        seq (lift (py_getitem payload ''message'')) (\<lambda>message.
        seq (lift (py_getitem payload ''plugin'')) (\<lambda>plugin_value.
        case plugin_value of
          JString plugin \<Rightarrow>
            if \<not> PLUGIN_NAME_RE_match plugin
            then seq (print (''[stavrobot-coder] Rejecting task '' @ py_str_json task_id
                        @ '': invalid plugin name: '' @ py_repr plugin)) (\<lambda>_.
                 send_json req 400 [(''error'', JString (''Invalid plugin name: '' @ py_repr plugin))])
            else
              (let plugin_dir = os_path_join PLUGINS_DIR plugin
               in seq (fs_ask (\<lambda>fs. os_path_isdir fs plugin_dir)) (\<lambda>is_dir.
                  if \<not> is_dir
                  then seq (print (''[stavrobot-coder] Rejecting task '' @ py_str_json task_id
                              @ '': plugin directory not found: '' @ plugin_dir)) (\<lambda>_.
                       send_json req 400
                         [(''error'', JString (''Plugin directory not found: '' @ py_repr plugin))])
                  else
                    seq (lift (py_slice_100 message)) (\<lambda>head.
                    seq (print (''[stavrobot-coder] Received coding task '' @ py_str_json task_id
                           @ '' for plugin '' @ py_repr plugin @ '': '' @ py_str_json head)) (\<lambda>_.
                    seq (emit (Thread_start task_id message plugin)) (\<lambda>_.
                    send_json req 202 [(''taskId'', task_id)])))))
        | _ \<Rightarrow>
            raise (Exn TypeError (''expected string or bytes-like object, got ''
                     @ [CHR 0x27] @ py_type_name plugin_value @ [CHR 0x27])))))))
      else send_json req 404 [(''error'', JString ''not found'')])"

subsection \<open>Reading a trace\<close>

text \<open>The requests sent to the upstream service, and the launches of the agent, in order.\<close>

fun posted :: "event list \<Rightarrow> http_req list" where
  "posted [] = []"
| "posted (Urlopen r # evs) = r # posted evs"
| "posted (ev # evs) = posted evs"

fun launched :: "event list \<Rightarrow> exec_req list" where
  "launched [] = []"
| "launched (Run_agent r # evs) = r # launched evs"
| "launched (ev # evs) = launched evs"

fun thread_starts :: "event list \<Rightarrow> (json \<times> json \<times> string) list" where
  "thread_starts [] = []"
| "thread_starts (Thread_start t m p # evs) = (t, m, p) # thread_starts evs"
| "thread_starts (ev # evs) = thread_starts evs"

fun responses :: "event list \<Rightarrow> nat list" where
  "responses [] = []"
| "responses (Send_response status hs b # evs) = status # responses evs"
| "responses (ev # evs) = responses evs"

text \<open>
  The events that neither reach the upstream service, nor launch the agent, nor belong
  to the request handler.
\<close>

fun quiet_event :: "event \<Rightarrow> bool" where
  "quiet_event (Print s) = True"
| "quiet_event (Fs c) = True"
| "quiet_event (Run_tool args) = True"
| "quiet_event ev = False"

text \<open>A statement that only ever appends events of one kind to the trace.\<close>

definition adds_only :: "(event \<Rightarrow> bool) \<Rightarrow> 'a prog \<Rightarrow> bool" where
  "adds_only P m = (\<forall>w. \<exists>evs. trace (snd (m w)) = trace w @ evs \<and> list_all P evs)"

text \<open>
  \<open>ensure_plugin_user\<close> called once for each host of a list, one after the other: the
  hosts stand for what the account tools answer at each call.
\<close>

fun ensure_plugin_user_repeatedly :: "host list \<Rightarrow> string \<Rightarrow> int \<Rightarrow> int \<Rightarrow> unit prog" where
  "ensure_plugin_user_repeatedly [] plugin_name uid gid = return ()"
| "ensure_plugin_user_repeatedly (h # hs) plugin_name uid gid =
     seq (ensure_plugin_user h plugin_name uid gid)
       (\<lambda>_. ensure_plugin_user_repeatedly hs plugin_name uid gid)"

subsection \<open>Example worlds\<close>

text \<open>
  Concrete file systems on which the theorems below are exercised: the shared credential
  file, the environment file, and one plugin directory \<open>/plugins/demo\<close> owned by uid and
  gid 1001.
\<close>

definition root_meta :: meta where
  "root_meta = \<lparr>st_uid = 0, st_gid = 0, st_mode = 493\<rparr>"

definition plugin_meta :: meta where
  "plugin_meta = \<lparr>st_uid = 1001, st_gid = 1001, st_mode = 493\<rparr>"

definition base_entries :: "(path \<times> node) list" where
  "base_entries =
     [([], Dir root_meta),
      ([''run''], Dir root_meta),
      ([''run'', ''coder-env''], File ''MODEL=sonnet'' root_meta),
      ([''home''], Dir root_meta),
      ([''home'', ''coder''], Dir root_meta),
      ([''home'', ''coder'', ''.claude''], Dir root_meta),
      ([''home'', ''coder'', ''.claude'', ''.credentials.json''], File ''stale'' root_meta),
      ([''etc''], Dir root_meta),
      ([''etc'', ''passwd''], File ''root'' root_meta),
      ([''cache''], Dir root_meta),
      ([''plugins''], Dir root_meta),
      ([''plugins'', ''demo''], Dir plugin_meta)]"

text \<open>The plugin directory as it is before provisioning.\<close>

definition fs_bare :: filesys where
  "fs_bare = map_of base_entries"

text \<open>After provisioning and a run of the agent that refreshed the credential file.\<close>

definition fs_provisioned :: filesys where
  "fs_provisioned =
     map_of (base_entries @
       [([''plugins'', ''demo'', ''.claude''], Dir plugin_meta),
        ([''plugins'', ''demo'', ''.claude'', ''.credentials.json''], File ''fresh'' plugin_meta)])"

text \<open>After a run of the agent that replaced the credential directory by a link to \<open>/etc\<close>.\<close>

definition fs_linked :: filesys where
  "fs_linked = map_of (base_entries @ [([''plugins'', ''demo'', ''.claude''], Link ''/etc'')])"

text \<open>
  An example host: the account tools answer \<open>t\<close>, the agent ends as \<open>a\<close> and leaves the
  file system as it is, \<open>json.loads\<close> gives \<open>l\<close>, and the upstream service answers \<open>u\<close>.
\<close>

definition demo_host :: "tool_outcome \<Rightarrow> proc_outcome \<Rightarrow> exn + json \<Rightarrow> exn + int \<Rightarrow> host" where
  "demo_host t a l u =
     \<lparr>run_tool = (\<lambda>args. t), run_agent = (\<lambda>req f. (a, f)), json_loads = (\<lambda>s. l),
      urlopen = (\<lambda>req. u)\<rparr>"

text \<open>The standard output \<open>{"subtype":"success","is_error":false,"result":"done"}\<close>.\<close>

definition stdout_done :: string where
  "stdout_done =
     ''{'' @ [CHR 0x22] @ ''subtype'' @ [CHR 0x22] @ '':'' @ [CHR 0x22] @ ''success'' @ [CHR 0x22]
     @ '','' @ [CHR 0x22] @ ''is_error'' @ [CHR 0x22] @ '':false,''
     @ [CHR 0x22] @ ''result'' @ [CHR 0x22] @ '':'' @ [CHR 0x22] @ ''done'' @ [CHR 0x22] @ ''}''"

definition json_done :: json where
  "json_done =
     JObject [(''subtype'', JString ''success''), (''is_error'', JBool False),
              (''result'', JString ''done'')]"



text \<open>A file system with a plugin directory whose name ends in a newline.\<close>

definition fs_newline :: filesys where
  "fs_newline = map_of (base_entries @ [([''plugins'', ''a'' @ [CHR 0x0A]], Dir plugin_meta)])"

text \<open>The example file system after credential provisioning, and after the cache directory
  has been prepared as well.\<close>

definition fs_after_setup :: filesys where
  "fs_after_setup =
     fs_bare([''plugins'', ''demo'', ''.claude''] \<mapsto> Dir \<lparr>st_uid = 1001, st_gid = 1001, st_mode = 448\<rparr>,
             [''plugins'', ''demo'', ''.claude'', ''.credentials.json''] \<mapsto>
               File ''stale'' \<lparr>st_uid = 1001, st_gid = 1001, st_mode = 384\<rparr>)"

definition fs_after_cache :: filesys where
  "fs_after_cache =
     fs_after_setup([''cache'', ''demo''] \<mapsto> Dir \<lparr>st_uid = 1001, st_gid = 1001, st_mode = 493\<rparr>,
                    [''cache'', ''demo'', ''uv''] \<mapsto> Dir \<lparr>st_uid = 1001, st_gid = 1001, st_mode = 493\<rparr>)"

text \<open>
  The example file system after a run in which the agent replaced its credential file by
  a directory, and after one in which it replaced it by a link to the shared credential
  file.
\<close>

definition fs_cred_dir :: filesys where
  "fs_cred_dir =
     fs_after_cache([''plugins'', ''demo'', ''.claude'', ''.credentials.json''] \<mapsto> Dir plugin_meta)"

definition fs_cred_link :: filesys where
  "fs_cred_link =
     fs_after_cache([''plugins'', ''demo'', ''.claude'', ''.credentials.json''] \<mapsto>
                      Link ''/home/coder/.claude/.credentials.json'')"

text \<open>
  An example host whose agent ends as \<open>a\<close> after it has replaced the credential file of
  the plugin \<open>demo\<close> by a directory; the account tools exit with 0.
\<close>

definition saboteur_host :: "proc_outcome \<Rightarrow> exn + json \<Rightarrow> exn + int \<Rightarrow> host" where
  "saboteur_host a l u =
     \<lparr>run_tool = (\<lambda>args. Tool_exit 0 []),
      run_agent = (\<lambda>req f. (a, f([''plugins'', ''demo'', ''.claude'', ''.credentials.json'']
                                      \<mapsto> Dir plugin_meta))),
      json_loads = (\<lambda>s. l),
      urlopen = (\<lambda>req. u)\<rparr>"

section \<open>Properties\<close>

subsection \<open>Evaluation of the example worlds\<close>

lemma components_claude_dir:
  "path_components ''/plugins/demo/.claude'' = [''plugins'', ''demo'', ''.claude'']"
  by (simp add: path_components_def)

lemma components_plugin_credentials:
  "path_components ''/plugins/demo/.claude/.credentials.json'' =
     [''plugins'', ''demo'', ''.claude'', ''.credentials.json'']"
  by (simp add: path_components_def)

lemma components_shared_credentials:
  "path_components ''/home/coder/.claude/.credentials.json'' =
     [''home'', ''coder'', ''.claude'', ''.credentials.json'']"
  by (simp add: path_components_def)

lemma join_claude_dir: "os_path_join ''/plugins/demo'' ''.claude'' = ''/plugins/demo/.claude''"
  by (simp add: os_path_join_def)

lemma join_plugin_credentials:
  "os_path_join ''/plugins/demo/.claude'' ''.credentials.json'' =
     ''/plugins/demo/.claude/.credentials.json''"
  by (simp add: os_path_join_def)

lemma linked_islink: "os_path_islink fs_linked ''/plugins/demo/.claude''"
  by (simp add: os_path_islink_def node_at_def locate_def components_claude_dir fs_linked_def
      base_entries_def)

lemma linked_locate:
  "locate False fs_linked ''/plugins/demo/.claude'' = Inr [''plugins'', ''demo'', ''.claude'']"
  by (simp add: locate_def components_claude_dir fs_linked_def base_entries_def)

lemma provisioned_not_islink: "\<not> os_path_islink fs_provisioned ''/plugins/demo/.claude''"
  by (simp add: os_path_islink_def node_at_def locate_def components_claude_dir
      fs_provisioned_def base_entries_def)

lemma provisioned_claude_dir:
  "node_at False fs_provisioned ''/plugins/demo/.claude'' =
     Inr ([''plugins'', ''demo'', ''.claude''], Dir plugin_meta)"
  by (simp add: node_at_def locate_def components_claude_dir fs_provisioned_def base_entries_def)

lemma provisioned_credentials:
  "node_at True fs_provisioned ''/plugins/demo/.claude/.credentials.json'' =
     Inr ([''plugins'', ''demo'', ''.claude'', ''.credentials.json''], File ''fresh'' plugin_meta)"
  by (simp add: node_at_def locate_def components_plugin_credentials fs_provisioned_def
      base_entries_def)

lemma provisioned_shared:
  "locate True fs_provisioned ''/home/coder/.claude/.credentials.json'' =
     Inr [''home'', ''coder'', ''.claude'', ''.credentials.json'']"
  by (simp add: locate_def components_shared_credentials fs_provisioned_def base_entries_def)

lemma provisioned_shared_node:
  "fs_provisioned [''home'', ''coder'', ''.claude'', ''.credentials.json''] =
     Some (File ''stale'' root_meta)"
  by (simp add: fs_provisioned_def base_entries_def)

lemma bare_not_islink: "\<not> os_path_islink fs_bare ''/plugins/demo/.claude''"
  by (simp add: os_path_islink_def node_at_def locate_def components_claude_dir fs_bare_def
      base_entries_def)

lemma bare_not_exists: "\<not> os_path_exists fs_bare ''/plugins/demo/.claude/.credentials.json''"
  by (simp add: os_path_exists_def os_stat_def node_at_def locate_def
      components_plugin_credentials fs_bare_def base_entries_def)

subsection \<open>Path resolution and single file-system calls\<close>

lemma islink_locate:
  assumes "os_path_islink f p"
  shows "\<exists>loc target. locate False f p = Inr loc \<and> f loc = Some (Link target)"
proof (cases "locate False f p")
  case (Inl e)
  with assms show ?thesis by (simp add: os_path_islink_def node_at_def)
next
  case (Inr loc)
  show ?thesis
  proof (cases "f loc")
    case None
    with Inr assms show ?thesis by (simp add: os_path_islink_def node_at_def)
  next
    case (Some n)
    with Inr assms show ?thesis
      by (cases n) (simp_all add: os_path_islink_def node_at_def)
  qed
qed

text \<open>
  Writing a regular file at a location that held no node or a regular file does not
  change where any other path leads.
\<close>

lemma walk_update_stable:
  "walk fuel follow f cur cs = Inr loc \<Longrightarrow> loc \<noteq> sloc \<Longrightarrow>
   f sloc = None \<or> (\<exists>c m. f sloc = Some (File c m)) \<Longrightarrow>
   walk fuel follow (f(sloc \<mapsto> File c2 m2)) cur cs = Inr loc"
proof (induction fuel follow f cur cs rule: walk.induct)
  case (1 fuel follow fs cur)
  then show ?case by simp
next
  case (2 fuel follow fs cur c cs)
  show ?case
  proof (cases "c = ''..''")
    case True
    with 2 show ?thesis by simp
  next
    case False
    note nd = False
    show ?thesis
    proof (cases "cur @ [c] = sloc")
      case True
      with 2(4,5,6) nd show ?thesis
        by (auto split: if_splits)
    next
      case False
      show ?thesis
      proof (cases "fs (cur @ [c])")
        case None
        with 2(4,5) nd False show ?thesis by (auto split: if_splits)
      next
        case (Some n)
        show ?thesis
        proof (cases n)
          case (File content m)
          with Some 2(4,5) nd False show ?thesis by (auto split: if_splits)
        next
          case (Dir m)
          with Some 2(2)[OF nd Some Dir] 2(4,5,6) nd False show ?thesis by auto
        next
          case (Link target)
          show ?thesis
          proof (cases "cs = [] \<and> \<not> follow")
            case True
            with Link Some 2(4,5) nd False show ?thesis by auto
          next
            case through: False
            show ?thesis
            proof (cases fuel)
              case 0
              with through Link Some 2(4,5) nd False show ?thesis by auto
            next
              case (Suc k)
              with through Link Some 2(3)[OF nd Some Link through Suc] 2(4,5,6) nd False
              show ?thesis by auto
            qed
          qed
        qed
      qed
    qed
  qed
qed

lemma node_at_update_stable:
  assumes "node_at follow f p = Inr (loc, n)" and "loc \<noteq> sloc"
    and "f sloc = None \<or> (\<exists>c m. f sloc = Some (File c m))"
  shows "node_at follow (f(sloc \<mapsto> File c2 m2)) p = Inr (loc, n)"
proof -
  from assms(1) have l: "locate follow f p = Inr loc" and n: "f loc = Some n"
    by (auto simp: node_at_def split: sum.splits option.splits)
  from l have pne: "p \<noteq> []" and w: "walk 40 follow f [] (path_components p) = Inr loc"
    by (auto simp: locate_def split: if_splits)
  from walk_update_stable[OF w assms(2) assms(3)]
  have "locate follow (f(sloc \<mapsto> File c2 m2)) p = Inr loc"
    using pne by (simp add: locate_def)
  with n assms(2) show ?thesis by (simp add: node_at_def)
qed

lemma rmtree_dir:
  assumes "node_at False f p = Inr (ploc, Dir pm)"
  shows "fs_rmtree_ignore_errors p f = (\<lambda>q. if prefix ploc q then None else f q)"
  using assms by (simp add: fs_rmtree_ignore_errors_def)

lemma fs_copy2_file:
  assumes "node_at True f src = Inr (sloc, File content m)"
    and "locate True f dst = Inr dloc" and "dloc \<noteq> sloc"
    and "f dloc = None \<or> (\<exists>c' m'. f dloc = Some (File c' m'))"
  shows "\<exists>m2. fs_copy2 src dst f = Inr (f(dloc \<mapsto> File content m2))"
  using assms
  by (auto simp: fs_copy2_def Let_def os_path_isdir_def node_at_def split: sum.splits)

lemma rmtree_run:
  "shutil_rmtree_ignore_errors p w =
     (Inr (), w\<lparr>trace := trace w @ [Fs (Rmtree p)], fs := fs_rmtree_ignore_errors p (fs w)\<rparr>)"
  by (simp add: shutil_rmtree_ignore_errors_def fs_do_def seq_def emit_def)

lemma copy2_run:
  "shutil_copy2 src dst w =
     (case fs_copy2 src dst (fs w) of
        Inl e \<Rightarrow> (Inl e, w\<lparr>trace := trace w @ [Fs (Copy2 src dst)]\<rparr>)
      | Inr f \<Rightarrow> (Inr (), w\<lparr>trace := trace w @ [Fs (Copy2 src dst)], fs := f\<rparr>))"
  by (simp add: shutil_copy2_def fs_do_def seq_def emit_def split: sum.splits)

lemma teardown_unfold:
  "teardown_plugin_credentials plugin_dir w =
     (let P = os_path_join plugin_dir ''.claude'';
          C = os_path_join P ''.credentials.json''
      in if os_path_islink (fs w) P then os_remove P w
         else if os_path_exists (fs w) C
           then seq (shutil_copy2 C CODER_CREDENTIALS_PATH) (\<lambda>_. shutil_rmtree_ignore_errors P) w
           else shutil_rmtree_ignore_errors P w)"
  by (simp add: teardown_plugin_credentials_def Let_def seq_def fs_ask_def return_def)

subsection \<open>The account name\<close>



lemma plugin_name_char_simps:
  "plugin_name_char CHR ''a''" "plugin_name_char CHR ''b''"
  by (simp_all add: plugin_name_char_def)

text \<open>
  C9. The account name derived from a plugin name (prefix \<open>plug_\<close>, hyphens folded to
  underscores, truncation to 32 characters) is not injective on valid plugin names: the
  name made of 28 letters \<open>a\<close> and the name made of 27 letters \<open>a\<close> followed by \<open>b\<close> are
  distinct, both pass the pattern, and both give the account name \<open>plug_\<close> followed by
  27 letters \<open>a\<close>.
\<close>

theorem username_of_not_injective:
  "PLUGIN_NAME_RE_match ''aaaaaaaaaaaaaaaaaaaaaaaaaaaa''
   \<and> PLUGIN_NAME_RE_match ''aaaaaaaaaaaaaaaaaaaaaaaaaaab''
   \<and> ''aaaaaaaaaaaaaaaaaaaaaaaaaaaa'' \<noteq> ''aaaaaaaaaaaaaaaaaaaaaaaaaaab''
   \<and> username_of ''aaaaaaaaaaaaaaaaaaaaaaaaaaaa'' = username_of ''aaaaaaaaaaaaaaaaaaaaaaaaaaab''
   \<and> username_of ''aaaaaaaaaaaaaaaaaaaaaaaaaaaa'' = ''plug_aaaaaaaaaaaaaaaaaaaaaaaaaaa''"
  by (simp add: PLUGIN_NAME_RE_match_def username_of_def replace_hyphens_def
      MAX_USERNAME_LENGTH_def plugin_name_char_simps)

subsection \<open>Credential teardown\<close>

lemma teardown_missing_file:
  assumes "\<not> os_path_islink (fs w) P" and "P = os_path_join plugin_dir ''.claude''"
    and "C = os_path_join P ''.credentials.json''" and "\<not> os_path_exists (fs w) C"
  shows "teardown_plugin_credentials plugin_dir w =
           (Inr (), w\<lparr>trace := trace w @ [Fs (Rmtree P)],
                      fs := fs_rmtree_ignore_errors P (fs w)\<rparr>)"
  using assms by (simp add: teardown_unfold Let_def rmtree_run)

lemma teardown_present_file:
  assumes "\<not> os_path_islink (fs w) P" and "P = os_path_join plugin_dir ''.claude''"
    and "C = os_path_join P ''.credentials.json''" and "os_path_exists (fs w) C"
  shows "teardown_plugin_credentials plugin_dir w =
           (case fs_copy2 C CODER_CREDENTIALS_PATH (fs w) of
              Inl e \<Rightarrow> (Inl e, w\<lparr>trace := trace w @ [Fs (Copy2 C CODER_CREDENTIALS_PATH)]\<rparr>)
            | Inr f \<Rightarrow>
                (Inr (), w\<lparr>trace := trace w @ [Fs (Copy2 C CODER_CREDENTIALS_PATH), Fs (Rmtree P)],
                           fs := fs_rmtree_ignore_errors P f\<rparr>))"
  using assms by (simp add: teardown_unfold Let_def rmtree_run copy2_run seq_def split: sum.splits)

lemma exists_of_file:
  "node_at True f p = Inr (loc, File content m) \<Longrightarrow> os_path_exists f p"
  by (simp add: os_path_exists_def os_stat_def)

text \<open>
  C3. Whenever the per-task credential subdirectory path is a symbolic link when teardown
  runs, teardown returns normally, its only file-system call is \<open>os.remove\<close> on that
  path (no copy-back, no recursive deletion), and the file system afterwards differs from
  the one before only at the location of the link itself, which held the link: the
  link's target and everything else are as they were.
\<close>

theorem teardown_symlink_removes_only_link:
  assumes "os_path_islink (fs w) P"
    and "P = os_path_join plugin_dir ''.claude''"
  shows "\<exists>loc target.
           locate False (fs w) P = Inr loc
         \<and> fs w loc = Some (Link target)
         \<and> teardown_plugin_credentials plugin_dir w =
             (Inr (), w\<lparr>trace := trace w @ [Fs (Remove P)], fs := (fs w)(loc := None)\<rparr>)"
proof -
  from islink_locate[OF assms(1)] obtain loc target where
    l: "locate False (fs w) P = Inr loc" and n: "fs w loc = Some (Link target)" by blast
  have "teardown_plugin_credentials plugin_dir w =
          (Inr (), w\<lparr>trace := trace w @ [Fs (Remove P)], fs := (fs w)(loc := None)\<rparr>)"
    using assms l n
    by (simp add: teardown_unfold Let_def seq_def os_remove_def fs_do_def emit_def fs_remove_def
        node_at_def)
  with l n show ?thesis by blast
qed

theorem teardown_symlink_removes_only_link_witness:
  "os_path_islink (fs \<lparr>fs = fs_linked, trace = []\<rparr>) ''/plugins/demo/.claude''
   \<and> teardown_plugin_credentials ''/plugins/demo'' \<lparr>fs = fs_linked, trace = []\<rparr> =
       (Inr (), \<lparr>fs = fs_linked([''plugins'', ''demo'', ''.claude''] := None),
                 trace = [Fs (Remove ''/plugins/demo/.claude'')]\<rparr>)
   \<and> (fs_linked([''plugins'', ''demo'', ''.claude''] := None)) [''etc'', ''passwd''] =
       Some (File ''root'' root_meta)"
proof -
  let ?w = "\<lparr>fs = fs_linked, trace = []\<rparr>"
  have link: "os_path_islink (fs ?w) ''/plugins/demo/.claude''"
    by (simp add: linked_islink)
  from teardown_symlink_removes_only_link[OF link, of "''/plugins/demo''"]
  obtain loc where "locate False (fs ?w) ''/plugins/demo/.claude'' = Inr loc"
    and run: "teardown_plugin_credentials ''/plugins/demo'' ?w =
       (Inr (), ?w\<lparr>trace := trace ?w @ [Fs (Remove ''/plugins/demo/.claude'')],
                    fs := (fs ?w)(loc := None)\<rparr>)"
    by (auto simp: join_claude_dir)
  then have "loc = [''plugins'', ''demo'', ''.claude'']"
    by (simp add: linked_locate)
  with run have "teardown_plugin_credentials ''/plugins/demo'' ?w =
       (Inr (), \<lparr>fs = fs_linked([''plugins'', ''demo'', ''.claude''] := None),
                 trace = [Fs (Remove ''/plugins/demo/.claude'')]\<rparr>)"
    by simp
  moreover have "(fs_linked([''plugins'', ''demo'', ''.claude''] := None)) [''etc'', ''passwd''] =
       Some (File ''root'' root_meta)"
    by (simp add: fs_linked_def base_entries_def)
  ultimately show ?thesis using link by simp
qed

text \<open>
  Teardown when the per-task credential directory is not a symbolic link, on the paths
  where the copy is not attempted or succeeds. When the
  per-task credential file does not exist (the file or the whole directory is missing),
  teardown returns normally and only removes the directory tree. When it exists, the
  first call is the copy to the shared credential location, and the removal of the tree
  follows it and happens only once the copy has succeeded. When the per-task credential
  file is a regular file, the shared location can be written and lies outside the
  per-task directory, teardown returns normally, the shared location then holds the
  per-task content, nothing is left below the per-task directory, and every other entry
  is unchanged.
\<close>

theorem teardown_copies_back_before_removal:
  assumes "\<not> os_path_islink (fs w) P"
    and "P = os_path_join plugin_dir ''.claude''"
    and "C = os_path_join P ''.credentials.json''"
    and "teardown_plugin_credentials plugin_dir w = (r, w')"
  shows "(\<not> os_path_exists (fs w) C \<longrightarrow>
            r = Inr () \<and> trace w' = trace w @ [Fs (Rmtree P)]
          \<and> fs w' = fs_rmtree_ignore_errors P (fs w))
       \<and> (os_path_exists (fs w) C \<longrightarrow>
            trace w' = trace w @ [Fs (Copy2 C CODER_CREDENTIALS_PATH)] \<and> r \<noteq> Inr ()
          \<or> trace w' = trace w @ [Fs (Copy2 C CODER_CREDENTIALS_PATH), Fs (Rmtree P)] \<and> r = Inr ())
       \<and> (\<forall>cloc content m sloc ploc pm.
            node_at True (fs w) C = Inr (cloc, File content m)
          \<and> locate True (fs w) CODER_CREDENTIALS_PATH = Inr sloc \<and> sloc \<noteq> cloc
          \<and> (fs w sloc = None \<or> (\<exists>c' m'. fs w sloc = Some (File c' m')))
          \<and> node_at False (fs w) P = Inr (ploc, Dir pm) \<and> \<not> prefix ploc sloc
          \<longrightarrow> r = Inr ()
            \<and> trace w' = trace w @ [Fs (Copy2 C CODER_CREDENTIALS_PATH), Fs (Rmtree P)]
            \<and> (\<exists>m2. fs w' sloc = Some (File content m2))
            \<and> (\<forall>q. prefix ploc q \<longrightarrow> fs w' q = None)
            \<and> (\<forall>q. \<not> prefix ploc q \<and> q \<noteq> sloc \<longrightarrow> fs w' q = fs w q))"
proof -
  have missing: "\<not> os_path_exists (fs w) C \<Longrightarrow> r = Inr () \<and> trace w' = trace w @ [Fs (Rmtree P)]
          \<and> fs w' = fs_rmtree_ignore_errors P (fs w)"
    using teardown_missing_file[OF assms(1,2,3)] assms(4) by auto
  have present: "os_path_exists (fs w) C \<Longrightarrow> trace w' = trace w @ [Fs (Copy2 C CODER_CREDENTIALS_PATH)] \<and> r \<noteq> Inr ()
          \<or> trace w' = trace w @ [Fs (Copy2 C CODER_CREDENTIALS_PATH), Fs (Rmtree P)] \<and> r = Inr ()"
    using teardown_present_file[OF assms(1,2,3)] assms(4)
    by (cases "fs_copy2 C CODER_CREDENTIALS_PATH (fs w)") auto
  have copied: "r = Inr ()
            \<and> trace w' = trace w @ [Fs (Copy2 C CODER_CREDENTIALS_PATH), Fs (Rmtree P)]
            \<and> (\<exists>m2. fs w' sloc = Some (File content m2))
            \<and> (\<forall>q. prefix ploc q \<longrightarrow> fs w' q = None)
            \<and> (\<forall>q. \<not> prefix ploc q \<and> q \<noteq> sloc \<longrightarrow> fs w' q = fs w q)"
    if h: "node_at True (fs w) C = Inr (cloc, File content m)
          \<and> locate True (fs w) CODER_CREDENTIALS_PATH = Inr sloc \<and> sloc \<noteq> cloc
          \<and> (fs w sloc = None \<or> (\<exists>c' m'. fs w sloc = Some (File c' m')))
          \<and> node_at False (fs w) P = Inr (ploc, Dir pm) \<and> \<not> prefix ploc sloc"
    for cloc content m sloc ploc pm
  proof -
  from h have ex: "os_path_exists (fs w) C" by (blast intro: exists_of_file)
  from h fs_copy2_file[of "fs w" C cloc content m CODER_CREDENTIALS_PATH sloc]
  obtain m2 where cp: "fs_copy2 C CODER_CREDENTIALS_PATH (fs w) = Inr ((fs w)(sloc \<mapsto> File content m2))"
    by blast
  from h have "ploc \<noteq> sloc" by auto
  with h have "node_at False ((fs w)(sloc \<mapsto> File content m2)) P = Inr (ploc, Dir pm)"
    by (intro node_at_update_stable) auto
  then have rm: "fs_rmtree_ignore_errors P ((fs w)(sloc \<mapsto> File content m2)) =
      (\<lambda>q. if prefix ploc q then None else ((fs w)(sloc \<mapsto> File content m2)) q)"
    by (rule rmtree_dir)
  from teardown_present_file[OF assms(1,2,3) ex] assms(4) cp
  have res: "r = Inr ()" "w' = w\<lparr>trace := trace w @ [Fs (Copy2 C CODER_CREDENTIALS_PATH), Fs (Rmtree P)],
                           fs := fs_rmtree_ignore_errors P ((fs w)(sloc \<mapsto> File content m2))\<rparr>"
    by auto
  show ?thesis
    using res rm h by simp
  qed
  from missing present copied show ?thesis by blast
qed

theorem teardown_copies_back_before_removal_witness:
  "\<not> os_path_islink fs_provisioned ''/plugins/demo/.claude''
   \<and> fst (teardown_plugin_credentials ''/plugins/demo'' \<lparr>fs = fs_provisioned, trace = []\<rparr>) = Inr ()
   \<and> trace (snd (teardown_plugin_credentials ''/plugins/demo'' \<lparr>fs = fs_provisioned, trace = []\<rparr>)) =
       [Fs (Copy2 ''/plugins/demo/.claude/.credentials.json'' ''/home/coder/.claude/.credentials.json''),
        Fs (Rmtree ''/plugins/demo/.claude'')]
   \<and> (\<exists>m2. fs (snd (teardown_plugin_credentials ''/plugins/demo'' \<lparr>fs = fs_provisioned, trace = []\<rparr>))
              [''home'', ''coder'', ''.claude'', ''.credentials.json''] = Some (File ''fresh'' m2))
   \<and> fs (snd (teardown_plugin_credentials ''/plugins/demo'' \<lparr>fs = fs_provisioned, trace = []\<rparr>))
        [''plugins'', ''demo'', ''.claude'', ''.credentials.json''] = None
   \<and> \<not> os_path_islink fs_bare ''/plugins/demo/.claude''
   \<and> \<not> os_path_exists fs_bare ''/plugins/demo/.claude/.credentials.json''
   \<and> fst (teardown_plugin_credentials ''/plugins/demo'' \<lparr>fs = fs_bare, trace = []\<rparr>) = Inr ()
   \<and> trace (snd (teardown_plugin_credentials ''/plugins/demo'' \<lparr>fs = fs_bare, trace = []\<rparr>)) =
       [Fs (Rmtree ''/plugins/demo/.claude'')]"
proof -
  let ?w = "\<lparr>fs = fs_provisioned, trace = []\<rparr>"
  let ?v = "\<lparr>fs = fs_bare, trace = []\<rparr>"
  let ?P = "''/plugins/demo/.claude''"
  let ?C = "''/plugins/demo/.claude/.credentials.json''"
  have nl: "\<not> os_path_islink (fs ?w) ?P" by (simp add: provisioned_not_islink)
  have P: "?P = os_path_join ''/plugins/demo'' ''.claude''" by (simp add: join_claude_dir)
  have C: "?C = os_path_join ?P ''.credentials.json''" by (simp add: join_plugin_credentials)
  note main = teardown_copies_back_before_removal[OF nl P C prod.collapse[symmetric]]
  have hyp: "node_at True (fs ?w) ?C =
        Inr ([''plugins'', ''demo'', ''.claude'', ''.credentials.json''], File ''fresh'' plugin_meta)
      \<and> locate True (fs ?w) CODER_CREDENTIALS_PATH = Inr [''home'', ''coder'', ''.claude'', ''.credentials.json'']
      \<and> [''home'', ''coder'', ''.claude'', ''.credentials.json''] \<noteq> [''plugins'', ''demo'', ''.claude'', ''.credentials.json'']
      \<and> (fs ?w [''home'', ''coder'', ''.claude'', ''.credentials.json''] = None
          \<or> (\<exists>c' m'. fs ?w [''home'', ''coder'', ''.claude'', ''.credentials.json''] = Some (File c' m')))
      \<and> node_at False (fs ?w) ?P = Inr ([''plugins'', ''demo'', ''.claude''], Dir plugin_meta)
      \<and> \<not> prefix [''plugins'', ''demo'', ''.claude''] [''home'', ''coder'', ''.claude'', ''.credentials.json'']"
    by (simp add: provisioned_credentials provisioned_shared provisioned_shared_node
        provisioned_claude_dir CODER_CREDENTIALS_PATH_def)
  from main hyp have a:
    "fst (teardown_plugin_credentials ''/plugins/demo'' ?w) = Inr ()
     \<and> trace (snd (teardown_plugin_credentials ''/plugins/demo'' ?w)) =
         trace ?w @ [Fs (Copy2 ?C CODER_CREDENTIALS_PATH), Fs (Rmtree ?P)]
     \<and> (\<exists>m2. fs (snd (teardown_plugin_credentials ''/plugins/demo'' ?w))
              [''home'', ''coder'', ''.claude'', ''.credentials.json''] = Some (File ''fresh'' m2))
     \<and> (\<forall>q. prefix [''plugins'', ''demo'', ''.claude''] q \<longrightarrow>
              fs (snd (teardown_plugin_credentials ''/plugins/demo'' ?w)) q = None)"
    by blast
  have nl': "\<not> os_path_islink (fs ?v) ?P" by (simp add: bare_not_islink)
  have ne: "\<not> os_path_exists (fs ?v) ?C" by (simp add: bare_not_exists)
  from teardown_copies_back_before_removal[OF nl' P C prod.collapse[symmetric]] ne
  have b: "fst (teardown_plugin_credentials ''/plugins/demo'' ?v) = Inr ()
     \<and> trace (snd (teardown_plugin_credentials ''/plugins/demo'' ?v)) = trace ?v @ [Fs (Rmtree ?P)]"
    by blast
  from a have "fs (snd (teardown_plugin_credentials ''/plugins/demo'' ?w))
        [''plugins'', ''demo'', ''.claude'', ''.credentials.json''] = None"
    by simp
  with a b show ?thesis
    using provisioned_not_islink bare_not_islink bare_not_exists
    by (simp add: CODER_CREDENTIALS_PATH_def)
qed

subsection \<open>The identity mapper\<close>

lemma seq_Inr: "m w = (Inr x, w') \<Longrightarrow> seq m f w = f x w'"
  by (simp add: seq_def)

lemma seq_Inl: "m w = (Inl e, w') \<Longrightarrow> seq m f w = (Inl e, w')"
  by (simp add: seq_def)

lemma subprocess_run_tool_run:
  "subprocess_run_tool h args w =
     (case run_tool h args of
        Tool_exit rc err \<Rightarrow> (Inr (rc, err), w\<lparr>trace := trace w @ [Run_tool args]\<rparr>)
      | Tool_raise e \<Rightarrow> (Inl e, w\<lparr>trace := trace w @ [Run_tool args]\<rparr>))"
  by (simp add: subprocess_run_tool_def seq_def emit_def return_def raise_def split: tool_outcome.splits)

lemma ensure_plugin_user_ok:
  assumes "\<And>args e. run_tool h args = Tool_raise e \<Longrightarrow> exn_class_of e = FileNotFoundError"
  shows "fst (ensure_plugin_user h plugin_name uid gid w) = Inr ()"
  using assms
  by (auto simp add: ensure_plugin_user_def Let_def try_except_def seq_def subprocess_run_tool_run
      print_def emit_def return_def split: tool_outcome.splits prod.splits sum.splits if_splits)

lemma ensure_plugin_user_exists:
  assumes "run_tool h [''groupadd'', ''--system'', ''--gid'', py_str_int gid, username_of plugin_name]
             = Tool_exit rc1 err1"
    and "rc1 = 0 \<or> rc1 = 9"
    and "run_tool h [''useradd'', ''--system'', ''--no-create-home'', ''--uid'', py_str_int uid,
                     ''--gid'', py_str_int gid, username_of plugin_name] = Tool_exit rc2 err2"
    and "rc2 = 0 \<or> rc2 = 9"
  shows "ensure_plugin_user h plugin_name uid gid w =
           (Inr (), w\<lparr>trace := trace w @
              [Run_tool [''groupadd'', ''--system'', ''--gid'', py_str_int gid, username_of plugin_name],
               Run_tool [''useradd'', ''--system'', ''--no-create-home'', ''--uid'', py_str_int uid,
                         ''--gid'', py_str_int gid, username_of plugin_name]]\<rparr>)"
  using assms
  by (auto simp add: ensure_plugin_user_def Let_def try_except_def seq_def subprocess_run_tool_run
      print_def emit_def return_def)

lemma ensure_plugin_user_missing:
  assumes "run_tool h [''groupadd'', ''--system'', ''--gid'', py_str_int gid, username_of plugin_name]
             = Tool_raise e"
    and "exn_class_of e = FileNotFoundError"
  shows "ensure_plugin_user h plugin_name uid gid w =
           (Inr (), w\<lparr>trace := trace w @
              [Run_tool [''groupadd'', ''--system'', ''--gid'', py_str_int gid, username_of plugin_name],
               Print (''[stavrobot-coder] Warning: useradd/groupadd not available, ''
                      @ ''skipping user creation for '' @ username_of plugin_name)]\<rparr>)"
  using assms
  by (auto simp add: ensure_plugin_user_def Let_def try_except_def seq_def subprocess_run_tool_run
      print_def emit_def return_def)

lemma ensure_plugin_user_repeatedly_ok:
  "(\<And>h args e. h \<in> set hs \<Longrightarrow> run_tool h args = Tool_raise e \<Longrightarrow> exn_class_of e = FileNotFoundError)
   \<Longrightarrow> fst (ensure_plugin_user_repeatedly hs plugin_name uid gid w) = Inr ()"
proof (induction hs arbitrary: w)
  case Nil
  then show ?case by (simp add: return_def)
next
  case (Cons h hs)
  have "fst (ensure_plugin_user h plugin_name uid gid w) = Inr ()"
    using Cons.prems by (intro ensure_plugin_user_ok) auto
  then obtain w' where "ensure_plugin_user h plugin_name uid gid w = (Inr (), w')"
    by (cases "ensure_plugin_user h plugin_name uid gid w") auto
  then have "ensure_plugin_user_repeatedly (h # hs) plugin_name uid gid w =
             ensure_plugin_user_repeatedly hs plugin_name uid gid w'"
    by (simp add: seq_Inr)
  moreover have "fst (ensure_plugin_user_repeatedly hs plugin_name uid gid w') = Inr ()"
    using Cons.prems by (intro Cons.IH) auto
  ultimately show ?case by simp
qed

text \<open>
  C8. For every plugin name, uid and gid, and any number of calls one after the other,
  each with its own answers from the account tools, \<open>ensure_plugin_user\<close> returns
  normally, provided the only exception a tool invocation raises is the
  \<open>FileNotFoundError\<close> of a missing toolchain. A return code of 0 or 9 ("already
  exists") from both tools gives the two invocations and no warning; any other return
  code gives a printed warning and no exception; a missing toolchain gives one printed
  warning and no exception.
\<close>

theorem ensure_plugin_user_never_raises:
  assumes "\<forall>h \<in> set hs. \<forall>args e. run_tool h args = Tool_raise e \<longrightarrow> exn_class_of e = FileNotFoundError"
    and "groupadd = [''groupadd'', ''--system'', ''--gid'', py_str_int gid, username_of plugin_name]"
    and "useradd = [''useradd'', ''--system'', ''--no-create-home'', ''--uid'', py_str_int uid,
                    ''--gid'', py_str_int gid, username_of plugin_name]"
  shows "fst (ensure_plugin_user_repeatedly hs plugin_name uid gid w) = Inr ()
       \<and> (\<forall>h \<in> set hs. \<forall>v. fst (ensure_plugin_user h plugin_name uid gid v) = Inr ())
       \<and> (\<forall>h \<in> set hs. \<forall>v rc1 err1 rc2 err2.
            run_tool h groupadd = Tool_exit rc1 err1 \<and> (rc1 = 0 \<or> rc1 = 9)
          \<and> run_tool h useradd = Tool_exit rc2 err2 \<and> (rc2 = 0 \<or> rc2 = 9)
          \<longrightarrow> ensure_plugin_user h plugin_name uid gid v =
                (Inr (), v\<lparr>trace := trace v @ [Run_tool groupadd, Run_tool useradd]\<rparr>))
       \<and> (\<forall>h \<in> set hs. \<forall>v e.
            run_tool h groupadd = Tool_raise e
          \<longrightarrow> ensure_plugin_user h plugin_name uid gid v =
                (Inr (), v\<lparr>trace := trace v @
                   [Run_tool groupadd,
                    Print (''[stavrobot-coder] Warning: useradd/groupadd not available, ''
                           @ ''skipping user creation for '' @ username_of plugin_name)]\<rparr>))"
proof -
  have a: "fst (ensure_plugin_user_repeatedly hs plugin_name uid gid w) = Inr ()"
    using assms(1) by (intro ensure_plugin_user_repeatedly_ok) blast
  have b: "\<forall>h \<in> set hs. \<forall>v. fst (ensure_plugin_user h plugin_name uid gid v) = Inr ()"
    using assms(1) by (auto intro!: ensure_plugin_user_ok)
  have c: "\<forall>h \<in> set hs. \<forall>v rc1 err1 rc2 err2.
            run_tool h groupadd = Tool_exit rc1 err1 \<and> (rc1 = 0 \<or> rc1 = 9)
          \<and> run_tool h useradd = Tool_exit rc2 err2 \<and> (rc2 = 0 \<or> rc2 = 9)
          \<longrightarrow> ensure_plugin_user h plugin_name uid gid v =
                (Inr (), v\<lparr>trace := trace v @ [Run_tool groupadd, Run_tool useradd]\<rparr>)"
    unfolding assms(2,3) by (intro ballI allI impI ensure_plugin_user_exists) blast+
  have d: "\<forall>h \<in> set hs. \<forall>v e.
            run_tool h groupadd = Tool_raise e
          \<longrightarrow> ensure_plugin_user h plugin_name uid gid v =
                (Inr (), v\<lparr>trace := trace v @
                   [Run_tool groupadd,
                    Print (''[stavrobot-coder] Warning: useradd/groupadd not available, ''
                           @ ''skipping user creation for '' @ username_of plugin_name)]\<rparr>)"
    unfolding assms(2) using assms(1) by (intro ballI allI impI ensure_plugin_user_missing) blast+
  from a b c d show ?thesis by blast
qed

theorem ensure_plugin_user_never_raises_witness:
  "fst (ensure_plugin_user_repeatedly
          [demo_host (Tool_exit 0 []) Timed_out (Inr JNull) (Inr 200),
           demo_host (Tool_exit 9 ''already exists'') Timed_out (Inr JNull) (Inr 200),
           demo_host (Tool_exit 4 ''UID not unique'') Timed_out (Inr JNull) (Inr 200),
           demo_host (Tool_raise (Exn FileNotFoundError ''No such file or directory''))
             Timed_out (Inr JNull) (Inr 200)]
          ''demo'' 1001 1001 \<lparr>fs = fs_bare, trace = []\<rparr>) = Inr ()"
proof -
  let ?hs = "[demo_host (Tool_exit 0 []) Timed_out (Inr JNull) (Inr 200),
              demo_host (Tool_exit 9 ''already exists'') Timed_out (Inr JNull) (Inr 200),
              demo_host (Tool_exit 4 ''UID not unique'') Timed_out (Inr JNull) (Inr 200),
              demo_host (Tool_raise (Exn FileNotFoundError ''No such file or directory''))
                Timed_out (Inr JNull) (Inr 200)]"
  have hyp: "\<forall>h \<in> set ?hs. \<forall>args e. run_tool h args = Tool_raise e \<longrightarrow> exn_class_of e = FileNotFoundError"
    by (simp add: demo_host_def)
  from ensure_plugin_user_never_raises[OF hyp refl refl, where plugin_name = "''demo''"
      and w = "\<lparr>fs = fs_bare, trace = []\<rparr>" and uid = 1001 and gid = 1001]
  have "fst (ensure_plugin_user_repeatedly ?hs ''demo'' 1001 1001 \<lparr>fs = fs_bare, trace = []\<rparr>) = Inr ()"
    by blast
  then show ?thesis .
qed

subsection \<open>Traces\<close>

lemma posted_append: "posted (xs @ ys) = posted xs @ posted ys"
  by (induction xs rule: posted.induct) simp_all

lemma launched_append: "launched (xs @ ys) = launched xs @ launched ys"
  by (induction xs rule: launched.induct) simp_all

lemma thread_starts_append: "thread_starts (xs @ ys) = thread_starts xs @ thread_starts ys"
  by (induction xs rule: thread_starts.induct) simp_all

lemma responses_append: "responses (xs @ ys) = responses xs @ responses ys"
  by (induction xs rule: responses.induct) simp_all

subsection \<open>The result reporter\<close>

text \<open>
  C7, as the code has it. \<open>post_result\<close> makes exactly one request and never a second
  one. When the upstream service answers with a status \<open>urlopen\<close> accepts, it prints one
  line and returns. When \<open>urlopen\<close> raises (a non-2xx answer is an \<open>HTTPError\<close>, a network
  failure a \<open>URLError\<close>), \<open>post_result\<close> prints nothing, catches nothing, and the exception
  leaves the function.
\<close>

theorem post_result_single_attempt:
  "post_result h message w =
     (case urlopen h (result_request message) of
        Inl e \<Rightarrow> (Inl e, w\<lparr>trace := trace w @ [Urlopen (result_request message)]\<rparr>)
      | Inr status \<Rightarrow>
          (Inr (), w\<lparr>trace := trace w @
             [Urlopen (result_request message),
              Print (''[stavrobot-coder] Result posted, HTTP '' @ py_str_int status)]\<rparr>))"
  by (simp add: post_result_def seq_def emit_def raise_def print_def split: sum.splits)

text \<open>
  C7 as stated says that \<open>post_result\<close> does not raise. With an upstream answer of 500,
  \<open>urlopen\<close> raises \<open>HTTPError\<close> and so does \<open>post_result\<close>.
\<close>

theorem post_result_raises_on_http_error:
  "fst (post_result
          (demo_host (Tool_exit 0 []) Timed_out (Inr JNull)
             (Inl (Exn HTTPError ''HTTP Error 500: Internal Server Error'')))
          ''done'' \<lparr>fs = fs_bare, trace = []\<rparr>)
     = Inl (Exn HTTPError ''HTTP Error 500: Internal Server Error'')"
  by (simp add: post_result_def seq_def emit_def raise_def demo_host_def)

subsection \<open>The dispatch server\<close>

lemma send_json_run:
  "send_json req status data w =
     (Inr (), w\<lparr>trace := trace w @
        [Print (''[stavrobot-coder] '' @ [CHR 0x22] @ req_line req @ [CHR 0x22] @ '' ''
                @ py_str_int (int status) @ '' -''),
         Send_response status
           [(''Content-Type'', ''application/json''),
            (''Content-Length'', py_str_int (int (length (json_dumps (JObject data)))))]
           (json_dumps (JObject data))]\<rparr>)"
  by (simp add: send_json_def Let_def emit_def log_message_def print_def seq_def)

lemma match_iff_whole_or_newline:
  "PLUGIN_NAME_RE_match s \<longleftrightarrow>
     spec_plugin_name_whole s \<or> (\<exists>b. s = b @ [CHR 0x0A] \<and> spec_plugin_name_whole b)"
proof (cases "s \<noteq> [] \<and> last s = CHR 0x0A")
  case True
  then have s: "s = butlast s @ [CHR 0x0A]" by (metis append_butlast_last_id)
  have nw: "\<not> spec_plugin_name_whole s"
  proof
    assume "spec_plugin_name_whole s"
    then have "list_all plugin_name_char s" by (simp add: spec_plugin_name_whole_def)
    then have "list_all plugin_name_char (butlast s @ [CHR 0x0A])" using s by simp
    then have "plugin_name_char (CHR 0x0A)" by simp
    then show False by (simp add: plugin_name_char_def)
  qed
  from True have "PLUGIN_NAME_RE_match s \<longleftrightarrow> spec_plugin_name_whole (butlast s)"
    by (simp add: PLUGIN_NAME_RE_match_def spec_plugin_name_whole_def Let_def)
  with s nw show ?thesis by (metis butlast_snoc)
next
  case False
  then have "\<not> (\<exists>b. s = b @ [CHR 0x0A])" by auto
  with False show ?thesis
    by (auto simp: PLUGIN_NAME_RE_match_def spec_plugin_name_whole_def Let_def)
qed

lemma do_POST_rejects:
  assumes "req_path req = ''/code''" and "req_body req = Inr raw"
    and "json_loads h raw = Inr payload"
    and "py_getitem payload ''taskId'' = Inr task_id"
    and "py_getitem payload ''message'' = Inr message"
    and "py_getitem payload ''plugin'' = Inr (JString plugin)"
    and "\<not> PLUGIN_NAME_RE_match plugin \<or> \<not> os_path_isdir (fs w) (os_path_join PLUGINS_DIR plugin)"
  shows "fst (do_POST h req w) = Inr ()
       \<and> responses (trace (snd (do_POST h req w))) = responses (trace w) @ [400]
       \<and> thread_starts (trace (snd (do_POST h req w))) = thread_starts (trace w)"
  using assms
  by (auto simp add: do_POST_def lift_def seq_def return_def raise_def fs_ask_def
      print_def emit_def send_json_run Let_def responses_append thread_starts_append)

lemma newline_name_matches: "PLUGIN_NAME_RE_match (''a'' @ [CHR 0x0A])"
  by (simp add: PLUGIN_NAME_RE_match_def plugin_name_char_def)

lemma newline_name_not_whole: "\<not> spec_plugin_name_whole (''a'' @ [CHR 0x0A])"
  by (simp add: spec_plugin_name_whole_def plugin_name_char_def)

lemma newline_dir: "os_path_isdir fs_newline (os_path_join PLUGINS_DIR (''a'' @ [CHR 0x0A]))"
  by (simp add: os_path_isdir_def node_at_def locate_def path_components_def os_path_join_def
      PLUGINS_DIR_def fs_newline_def base_entries_def)

text \<open>
  C2 at the plugin name \<open>a\<close> followed by a newline, with a directory of that name under
  the plugins root: the name is not a whole-string match of the pattern, since the
  newline is not in the character class, and yet \<open>re.match\<close> accepts it, because \<open>$\<close>
  also matches just before a final newline. The handler answers 202 and starts the task
  thread.
\<close>

theorem do_POST_accepts_trailing_newline:
  "\<not> spec_plugin_name_whole (''a'' @ [CHR 0x0A])
   \<and> responses (trace (snd (do_POST
        (demo_host (Tool_exit 0 []) Timed_out
           (Inr (JObject [(''taskId'', JString ''t1''), (''message'', JString ''hi''),
                          (''plugin'', JString (''a'' @ [CHR 0x0A]))]))
           (Inr 200))
        \<lparr>req_line = ''POST /code HTTP/1.1'', req_path = ''/code'', req_body = Inr ''body''\<rparr>
        \<lparr>fs = fs_newline, trace = []\<rparr>))) = [202]
   \<and> thread_starts (trace (snd (do_POST
        (demo_host (Tool_exit 0 []) Timed_out
           (Inr (JObject [(''taskId'', JString ''t1''), (''message'', JString ''hi''),
                          (''plugin'', JString (''a'' @ [CHR 0x0A]))]))
           (Inr 200))
        \<lparr>req_line = ''POST /code HTTP/1.1'', req_path = ''/code'', req_body = Inr ''body''\<rparr>
        \<lparr>fs = fs_newline, trace = []\<rparr>))) = [(JString ''t1'', JString ''hi'', ''a'' @ [CHR 0x0A])]"
  using newline_name_matches newline_dir newline_name_not_whole
  by (simp add: do_POST_def lift_def seq_def return_def raise_def fs_ask_def demo_host_def
      py_getitem_def py_slice_100_def print_def emit_def send_json_run Let_def)

subsection \<open>What a statement adds to the trace\<close>

lemma adds_only_return: "adds_only P (return x)"
  by (simp add: adds_only_def return_def)

lemma adds_only_raise: "adds_only P (raise e)"
  by (simp add: adds_only_def raise_def)

lemma adds_only_emit: "P ev \<Longrightarrow> adds_only P (emit ev)"
  by (simp add: adds_only_def emit_def)

lemma adds_only_print: "P (Print s) \<Longrightarrow> adds_only P (print s)"
  by (simp add: print_def adds_only_emit)

lemma adds_only_seq:
  assumes "adds_only P m" and "\<And>x. adds_only P (f x)"
  shows "adds_only P (seq m f)"
  unfolding adds_only_def
proof
  fix w
  from assms(1) obtain evs where m: "trace (snd (m w)) = trace w @ evs" "list_all P evs"
    unfolding adds_only_def by blast
  show "\<exists>evs. trace (snd (seq m f w)) = trace w @ evs \<and> list_all P evs"
  proof (cases "m w")
    case (Pair r w')
    show ?thesis
    proof (cases r)
      case (Inl e)
      with Pair m show ?thesis by (auto simp: seq_def)
    next
      case (Inr x)
      from assms(2)[of x] obtain evs' where
        f: "trace (snd (f x w')) = trace w' @ evs'" "list_all P evs'"
        unfolding adds_only_def by blast
      with Pair Inr m have "trace (snd (seq m f w)) = trace w @ (evs @ evs')" "list_all P (evs @ evs')"
        by (auto simp: seq_def)
      then show ?thesis by blast
    qed
  qed
qed

lemma adds_only_if:
  "adds_only P m \<Longrightarrow> adds_only P n \<Longrightarrow> adds_only P (if b then m else n)"
  by simp

lemma adds_only_fs_ask: "adds_only P (fs_ask q)"
  by (simp add: adds_only_def fs_ask_def)

lemma adds_only_fs_try: "adds_only P (fs_try q)"
  by (simp add: adds_only_def fs_try_def)

lemma adds_only_lift: "adds_only P (lift r)"
  by (cases r) (simp_all add: lift_def adds_only_return adds_only_raise)

lemma adds_only_fs_do: "P (Fs c) \<Longrightarrow> adds_only P (fs_do c f)"
  unfolding fs_do_def
  by (rule adds_only_seq, erule adds_only_emit)
     (auto simp: adds_only_def split: sum.splits)

lemma adds_only_try_except:
  assumes "adds_only P m" and "adds_only P k"
  shows "adds_only P (try_except m cls k)"
  unfolding adds_only_def
proof
  fix w
  from assms(1) obtain evs where m: "trace (snd (m w)) = trace w @ evs" "list_all P evs"
    unfolding adds_only_def by blast
  from assms(2) obtain evs' where
    k: "trace (snd (k (snd (m w)))) = trace (snd (m w)) @ evs'" "list_all P evs'"
    unfolding adds_only_def by blast
  from m k have both: "trace (snd (k (snd (m w)))) = trace w @ (evs @ evs')" "list_all P (evs @ evs')"
    by auto
  show "\<exists>evs. trace (snd (try_except m cls k w)) = trace w @ evs \<and> list_all P evs"
  proof (cases "m w")
    case (Pair r w')
    show ?thesis
    proof (cases r)
      case (Inl e)
      show ?thesis
      proof (cases "exn_class_of e = cls")
        case True
        with Pair Inl both show ?thesis by (auto simp: try_except_def)
      next
        case False
        with Pair Inl m show ?thesis by (auto simp: try_except_def)
      qed
    next
      case (Inr x)
      with Pair m show ?thesis by (auto simp: try_except_def)
    qed
  qed
qed

lemma adds_only_run_tool: "P (Run_tool args) \<Longrightarrow> adds_only P (subprocess_run_tool h args)"
  unfolding subprocess_run_tool_def
  by (rule adds_only_seq, erule adds_only_emit)
     (simp add: adds_only_return adds_only_raise split: tool_outcome.splits)

lemmas adds_only_intros =
  adds_only_return adds_only_raise adds_only_emit adds_only_print adds_only_seq adds_only_if
  adds_only_fs_ask adds_only_fs_try adds_only_lift adds_only_fs_do adds_only_try_except
  adds_only_run_tool

lemma quiet_ensure_plugin_user: "adds_only quiet_event (ensure_plugin_user h plugin_name uid gid)"
  unfolding ensure_plugin_user_def Let_def
  by (intro adds_only_intros) simp_all

lemma quiet_setup: "adds_only quiet_event (setup_plugin_credentials plugin_dir uid gid)"
  unfolding setup_plugin_credentials_def Let_def os_remove_def os_makedirs_def shutil_copy2_def
    os_chown_def os_chmod_def
  by (intro adds_only_intros) simp_all

lemma quiet_teardown: "adds_only quiet_event (teardown_plugin_credentials plugin_dir)"
  unfolding teardown_plugin_credentials_def Let_def os_remove_def shutil_copy2_def
    shutil_rmtree_ignore_errors_def
  by (intro adds_only_intros) simp_all

lemma quiet_provision: "adds_only quiet_event (provision h plugin cwd_path)"
  unfolding provision_def
  by (intro adds_only_intros quiet_ensure_plugin_user quiet_setup)

lemma quiet_prepare_cache_dir: "adds_only quiet_event (prepare_cache_dir plugin uid gid)"
  unfolding prepare_cache_dir_def Let_def os_makedirs_def os_chown_def
  by (intro adds_only_intros) simp_all

lemma quiet_on_exception: "adds_only quiet_event (on_exception task_id e)"
  unfolding on_exception_def
  by (intro adds_only_intros) simp_all

lemma quiet_posted:
  assumes "adds_only quiet_event m"
  shows "posted (trace (snd (m w))) = posted (trace w)"
    and "launched (trace (snd (m w))) = launched (trace w)"
proof -
  from assms obtain evs where t: "trace (snd (m w)) = trace w @ evs" and q: "list_all quiet_event evs"
    unfolding adds_only_def by blast
  from q have "posted evs = [] \<and> launched evs = []"
  proof (induction evs)
    case Nil
    then show ?case by simp
  next
    case (Cons ev evs)
    then show ?case by (cases ev) simp_all
  qed
  with t show "posted (trace (snd (m w))) = posted (trace w)"
    and "launched (trace (snd (m w))) = launched (trace w)"
    by (simp_all add: posted_append launched_append)
qed

subsection \<open>The try block of the task runner\<close>

lemma adds_only_mono:
  "adds_only P m \<Longrightarrow> (\<And>ev. P ev \<Longrightarrow> Q ev) \<Longrightarrow> adds_only Q m"
  unfolding adds_only_def by (meson list.pred_mono_strong)

lemma adds_only_run_agent:
  "P (Run_agent req) \<Longrightarrow> adds_only P (subprocess_run_agent h req)"
  unfolding subprocess_run_agent_def
  by (rule adds_only_seq, erule adds_only_emit)
     (auto simp: adds_only_def split: prod.splits proc_outcome.splits)

lemma no_post_posted:
  assumes "adds_only (\<lambda>ev. posted [ev] = []) m"
  shows "posted (trace (snd (m w))) = posted (trace w)"
proof -
  from assms obtain evs where t: "trace (snd (m w)) = trace w @ evs"
    and q: "list_all (\<lambda>ev. posted [ev] = []) evs"
    unfolding adds_only_def by blast
  from q have "posted evs = []"
  proof (induction evs)
    case Nil
    then show ?case by simp
  next
    case (Cons ev evs)
    then show ?case by (cases ev) simp_all
  qed
  with t show ?thesis by (simp add: posted_append)
qed

lemma quiet_no_post: "adds_only quiet_event m \<Longrightarrow> adds_only (\<lambda>ev. posted [ev] = []) m"
proof (erule adds_only_mono)
  fix ev assume "quiet_event ev"
  then show "posted [ev] = []" by (cases ev) simp_all
qed

lemma no_post_launch:
  "adds_only (\<lambda>ev. posted [ev] = []) (launch h task_id message plugin model cwd_path uid gid)"
  unfolding launch_def
  by (intro adds_only_intros adds_only_run_agent) simp_all

lemma no_post_execute:
  "adds_only (\<lambda>ev. posted [ev] = []) (execute h task_id message plugin model cwd_path uid gid)"
  unfolding execute_def
  by (intro adds_only_seq quiet_no_post quiet_prepare_cache_dir no_post_launch)

lemma on_exception_run:
  "on_exception task_id e w =
     (Inr (failure_text e), w\<lparr>trace := trace w @ [Print (failure_log task_id e)]\<rparr>)"
  by (simp add: on_exception_def seq_def print_def emit_def return_def)

lemma try_block_provision_fails:
  assumes "provision h plugin cwd_path w = (Inl e, w2)"
  shows "try_block h task_id message plugin model cwd_path w =
           (Inr (failure_text e, False), w2\<lparr>trace := trace w2 @ [Print (failure_log task_id e)]\<rparr>)"
  using assms by (simp add: try_block_def seq_def return_def on_exception_run)

lemma try_block_execute_fails:
  assumes "provision h plugin cwd_path w = (Inr (uid, gid), w2)"
    and "execute h task_id message plugin model cwd_path uid gid w2 = (Inl e, w3)"
  shows "try_block h task_id message plugin model cwd_path w =
           (Inr (failure_text e, True), w3\<lparr>trace := trace w3 @ [Print (failure_log task_id e)]\<rparr>)"
  using assms by (simp add: try_block_def seq_def return_def on_exception_run)

lemma try_block_succeeds:
  assumes "provision h plugin cwd_path w = (Inr (uid, gid), w2)"
    and "execute h task_id message plugin model cwd_path uid gid w2 = (Inr text, w3)"
  shows "try_block h task_id message plugin model cwd_path w = (Inr (text, True), w3)"
  using assms by (simp add: try_block_def)

lemma try_block_total:
  "\<exists>text flag w'. try_block h task_id message plugin model cwd_path w = (Inr (text, flag), w')"
proof (cases "provision h plugin cwd_path w")
  case (Pair r w2)
  show ?thesis
  proof (cases r)
    case (Inl e)
    with Pair show ?thesis by (auto simp add: try_block_provision_fails)
  next
    case (Inr ids)
    with Pair have p: "provision h plugin cwd_path w = (Inr (fst ids, snd ids), w2)" by simp
    show ?thesis
    proof (cases "execute h task_id message plugin model cwd_path (fst ids) (snd ids) w2")
      case ex: (Pair r' w3)
      show ?thesis
      proof (cases r')
        case (Inl e)
        with ex try_block_execute_fails[OF p] show ?thesis by auto
      next
        case (Inr res)
        with ex try_block_succeeds[OF p] show ?thesis by auto
      qed
    qed
  qed
qed

lemma no_post_try_block:
  "posted (trace (snd (try_block h task_id message plugin model cwd_path w))) = posted (trace w)"
proof (cases "provision h plugin cwd_path w")
  case (Pair r w2)
  have pw: "posted (trace w2) = posted (trace w)"
    using quiet_posted(1)[OF quiet_provision, of h plugin cwd_path w] Pair by simp
  show ?thesis
  proof (cases r)
    case (Inl e)
    with Pair pw show ?thesis by (simp add: try_block_provision_fails posted_append)
  next
    case (Inr ids)
    with Pair have p: "provision h plugin cwd_path w = (Inr (fst ids, snd ids), w2)" by simp
    show ?thesis
    proof (cases "execute h task_id message plugin model cwd_path (fst ids) (snd ids) w2")
      case ex: (Pair r' w3)
      have ew: "posted (trace w3) = posted (trace w2)"
        using no_post_posted[OF no_post_execute, of h task_id message plugin model cwd_path
            "fst ids" "snd ids" w2] ex by simp
      show ?thesis
      proof (cases r')
        case (Inl e)
        with ex try_block_execute_fails[OF p] pw ew show ?thesis by (simp add: posted_append)
      next
        case (Inr res)
        with ex try_block_succeeds[OF p] pw ew show ?thesis by simp
      qed
    qed
  qed
qed

subsection \<open>The task runner\<close>

lemma read_coder_env_world: "snd (read_coder_env w) = w"
  by (simp add: read_coder_env_def seq_def fs_try_def return_def split: sum.splits)

lemma read_coder_env_trace: "fst (read_coder_env (w\<lparr>trace := t\<rparr>)) = fst (read_coder_env w)"
  by (simp add: read_coder_env_def seq_def fs_try_def return_def split: sum.splits)

lemma run_coding_task_invalid:
  "\<not> PLUGIN_NAME_RE_match plugin \<Longrightarrow>
   run_coding_task h task_id message plugin w =
     (Inl (Exn ValueError (''Invalid plugin name: '' @ py_repr plugin)), w)"
  by (simp add: run_coding_task_def raise_def)

lemma run_coding_task_unfold:
  assumes "PLUGIN_NAME_RE_match plugin"
    and "fst (read_coder_env w) = Inr env" and "env ''MODEL'' = Some model"
    and "try_block h task_id message plugin model (os_path_join PLUGINS_DIR plugin)
           (w\<lparr>trace := trace w @ [Print (''[stavrobot-coder] Starting coding task '' @ task_id
                                         @ '' for plugin '' @ py_repr plugin)]\<rparr>)
         = (Inr (txt, flag), w4)"
  shows "run_coding_task h task_id message plugin w =
           seq (if flag then teardown_plugin_credentials (os_path_join PLUGINS_DIR plugin)
                else return ())
             (\<lambda>_. seq (print (''[stavrobot-coder] Posting result for task '' @ task_id
                          @ '', length: '' @ py_str_int (int (length txt))))
                     (\<lambda>_. post_result h txt)) w4"
proof -
  let ?w1 = "w\<lparr>trace := trace w @ [Print (''[stavrobot-coder] Starting coding task '' @ task_id
                                         @ '' for plugin '' @ py_repr plugin)]\<rparr>"
  have "read_coder_env ?w1 = (Inr env, ?w1)"
    using assms(2) read_coder_env_world[of ?w1] read_coder_env_trace[where w = w]
    by (metis prod.collapse)
  then show ?thesis
    using assms(1,3,4)
    by (simp add: run_coding_task_def seq_def print_def emit_def return_def Let_def
        split: prod.splits sum.splits)
qed

lemma finish_after_teardown:
  "seq (print p) (\<lambda>_. post_result h txt) wt =
     (case urlopen h (result_request txt) of
        Inl e \<Rightarrow> (Inl e, wt\<lparr>trace := trace wt @ [Print p, Urlopen (result_request txt)]\<rparr>)
      | Inr status \<Rightarrow>
          (Inr (), wt\<lparr>trace := trace wt @
             [Print p, Urlopen (result_request txt),
              Print (''[stavrobot-coder] Result posted, HTTP '' @ py_str_int status)]\<rparr>))"
  by (simp add: seq_def print_def emit_def post_result_single_attempt split: sum.splits)

lemma posted_after_teardown:
  "posted (trace (snd (teardown_plugin_credentials d w))) = posted (trace w)"
  by (rule quiet_posted(1)[OF quiet_teardown])

lemma run_coding_task_delivers:
  assumes "PLUGIN_NAME_RE_match plugin"
    and "fst (read_coder_env w) = Inr env" and "env ''MODEL'' = Some model"
    and "try_block h task_id message plugin model (os_path_join PLUGINS_DIR plugin)
           (w\<lparr>trace := trace w @ [Print (''[stavrobot-coder] Starting coding task '' @ task_id
                                         @ '' for plugin '' @ py_repr plugin)]\<rparr>)
         = (Inr (txt, flag), w4)"
    and "flag \<longrightarrow> fst (teardown_plugin_credentials (os_path_join PLUGINS_DIR plugin) w4) = Inr ()"
  shows "posted (trace (snd (run_coding_task h task_id message plugin w)))
           = posted (trace w) @ [result_request txt]"
proof -
  let ?w1 = "w\<lparr>trace := trace w @ [Print (''[stavrobot-coder] Starting coding task '' @ task_id
                                         @ '' for plugin '' @ py_repr plugin)]\<rparr>"
  let ?d = "os_path_join PLUGINS_DIR plugin"
  let ?p = "''[stavrobot-coder] Posting result for task '' @ task_id
                          @ '', length: '' @ py_str_int (int (length txt))"
  have p4: "posted (trace w4) = posted (trace w)"
    using no_post_try_block[of h task_id message plugin model ?d ?w1] assms(4)
    by (simp add: posted_append)
  obtain wt where td: "(if flag then teardown_plugin_credentials ?d else return ()) w4 = (Inr (), wt)"
    and pt: "posted (trace wt) = posted (trace w4)"
  proof (cases flag)
    case True
    with assms(5) have "fst (teardown_plugin_credentials ?d w4) = Inr ()" by simp
    then have "teardown_plugin_credentials ?d w4 = (Inr (), snd (teardown_plugin_credentials ?d w4))"
      by (metis prod.collapse)
    with True that[of "snd (teardown_plugin_credentials ?d w4)"] posted_after_teardown[of ?d w4]
    show ?thesis by simp
  next
    case False
    with that[of w4] show ?thesis by (simp add: return_def)
  qed
  have "run_coding_task h task_id message plugin w = seq (print ?p) (\<lambda>_. post_result h txt) wt"
    using run_coding_task_unfold[OF assms(1-4)] td by (simp add: seq_Inr)
  then have "posted (trace (snd (run_coding_task h task_id message plugin w)))
               = posted (trace wt) @ [result_request txt]"
    by (simp add: finish_after_teardown posted_append split: sum.splits)
  with pt p4 show ?thesis by simp
qed

lemma failure_text_prefix: "prefix ''Coding task failed: '' (failure_text e)"
  by (simp add: failure_text_def)

lemma strip_model_line: "py_strip ''MODEL=sonnet'' = ''MODEL=sonnet''"
  by (simp add: py_strip_def py_isspace_def)

lemma bare_read_env:
  "fst (read_coder_env \<lparr>fs = fs_bare, trace = []\<rparr>) = Inr [''MODEL'' \<mapsto> ''sonnet'']"
  by (simp add: read_coder_env_def seq_def fs_try_def return_def fs_read_def node_at_def
      locate_def path_components_def CODER_ENV_PATH_def fs_bare_def base_entries_def
      read_env_line_def strip_model_line)

lemma ghost_matches: "PLUGIN_NAME_RE_match ''ghost''"
  by (simp add: PLUGIN_NAME_RE_match_def plugin_name_char_def)

lemma ghost_provision:
  "fs v = fs_bare \<Longrightarrow>
   provision h ''ghost'' (os_path_join PLUGINS_DIR ''ghost'') v =
     (Inl (os_error ENOENT ''/plugins/ghost''), v)"
  by (simp add: provision_def seq_def fs_try_def os_stat_def node_at_def locate_def
      path_components_def os_path_join_def PLUGINS_DIR_def fs_bare_def base_entries_def)

text \<open>
  C1, as the code has it. For every invocation of the task runner with a plugin name
  that passes the pattern check, once the environment file has been read and names a
  model: the \<open>try\<close> statement always ends with a result text and never raises; when
  owner resolution, identity setup or credential provisioning raises, and when cache
  preparation, the subprocess or the parsing of its output raises, the text is the
  failure message made from the exception (it starts with \<open>Coding task failed: \<close>); and
  when teardown, if it is due, returns, exactly one request carrying that text is sent
  to the upstream service. What happens when the environment file cannot be read, or
  when teardown raises, is not part of this statement.
\<close>

theorem run_coding_task_reports_once:
  assumes "PLUGIN_NAME_RE_match plugin"
    and "fst (read_coder_env w) = Inr env" and "env ''MODEL'' = Some model"
    and "cwd_path = os_path_join PLUGINS_DIR plugin"
    and "w1 = w\<lparr>trace := trace w @ [Print (''[stavrobot-coder] Starting coding task '' @ task_id
                                             @ '' for plugin '' @ py_repr plugin)]\<rparr>"
  shows "\<exists>txt flag w4.
           try_block h task_id message plugin model cwd_path w1 = (Inr (txt, flag), w4)
         \<and> (\<forall>e w2. provision h plugin cwd_path w1 = (Inl e, w2)
               \<longrightarrow> txt = failure_text e \<and> prefix ''Coding task failed: '' txt \<and> \<not> flag)
         \<and> (\<forall>ids w2 e w3. provision h plugin cwd_path w1 = (Inr ids, w2)
               \<and> execute h task_id message plugin model cwd_path (fst ids) (snd ids) w2 = (Inl e, w3)
               \<longrightarrow> txt = failure_text e \<and> prefix ''Coding task failed: '' txt \<and> flag)
         \<and> ((flag \<longrightarrow> fst (teardown_plugin_credentials cwd_path w4) = Inr ())
              \<longrightarrow> posted (trace (snd (run_coding_task h task_id message plugin w)))
                    = posted (trace w) @ [result_request txt])"
proof -
  from try_block_total obtain tx flag w4 where
    tb: "try_block h task_id message plugin model cwd_path w1 = (Inr (tx, flag), w4)"
    by blast
  have a: "tx = failure_text e \<and> prefix ''Coding task failed: '' tx \<and> \<not> flag"
    if "provision h plugin cwd_path w1 = (Inl e, w2)" for e w2
  proof -
    from try_block_provision_fails[OF that, of task_id message model] tb
    have "tx = failure_text e \<and> \<not> flag" by simp
    then show ?thesis using failure_text_prefix[of e] by simp
  qed
  have b: "tx = failure_text e \<and> prefix ''Coding task failed: '' tx \<and> flag"
    if "provision h plugin cwd_path w1 = (Inr ids, w2)
        \<and> execute h task_id message plugin model cwd_path (fst ids) (snd ids) w2 = (Inl e, w3)"
    for ids w2 e w3
  proof -
    from that have "provision h plugin cwd_path w1 = (Inr (fst ids, snd ids), w2)" by simp
    from try_block_execute_fails[OF this, of task_id message model e w3] that tb
    have "tx = failure_text e \<and> flag" by simp
    then show ?thesis using failure_text_prefix[of e] by simp
  qed
  have c: "posted (trace (snd (run_coding_task h task_id message plugin w)))
                    = posted (trace w) @ [result_request tx]"
    if "flag \<longrightarrow> fst (teardown_plugin_credentials cwd_path w4) = Inr ()"
    using run_coding_task_delivers[OF assms(1-3)] tb that assms(4,5) by simp
  from tb a b c show ?thesis by blast
qed

theorem run_coding_task_reports_once_witness:
  "posted (trace (snd (run_coding_task
      (demo_host (Tool_exit 0 []) (Completed 0 stdout_done []) (Inr json_done) (Inr 200))
      ''t1'' ''hi'' ''ghost'' \<lparr>fs = fs_bare, trace = []\<rparr>)))
   = [result_request (''Coding task failed: [Errno 2] No such file or directory: ''
                      @ py_repr ''/plugins/ghost'')]"
proof -
  let ?h = "demo_host (Tool_exit 0 []) (Completed 0 stdout_done []) (Inr json_done) (Inr 200)"
  let ?w = "\<lparr>fs = fs_bare, trace = []\<rparr>"
  let ?w1 = "?w\<lparr>trace := trace ?w @ [Print (''[stavrobot-coder] Starting coding task '' @ ''t1''
                                             @ '' for plugin '' @ py_repr ''ghost'')]\<rparr>"
  have env: "[''MODEL'' \<mapsto> ''sonnet''] ''MODEL'' = Some ''sonnet''" by simp
  from run_coding_task_reports_once[OF ghost_matches bare_read_env env refl refl,
      of ?h "''t1''" "''hi''"]
  obtain tx flag w4 where
    a: "\<forall>e w2. provision ?h ''ghost'' (os_path_join PLUGINS_DIR ''ghost'') ?w1 = (Inl e, w2)
               \<longrightarrow> tx = failure_text e \<and> prefix ''Coding task failed: '' tx \<and> \<not> flag"
    and c: "(flag \<longrightarrow> fst (teardown_plugin_credentials (os_path_join PLUGINS_DIR ''ghost'') w4) = Inr ())
              \<longrightarrow> posted (trace (snd (run_coding_task ?h ''t1'' ''hi'' ''ghost'' ?w)))
                    = posted (trace ?w) @ [result_request tx]"
    by blast
  have "provision ?h ''ghost'' (os_path_join PLUGINS_DIR ''ghost'') ?w1
          = (Inl (os_error ENOENT ''/plugins/ghost''), ?w1)"
    by (rule ghost_provision) simp
  with a have "tx = failure_text (os_error ENOENT ''/plugins/ghost'')" and "\<not> flag" by blast+
  with c have "posted (trace (snd (run_coding_task ?h ''t1'' ''hi'' ''ghost'' ?w)))
                 = [result_request (failure_text (os_error ENOENT ''/plugins/ghost''))]"
    by simp
  then show ?thesis by (simp add: failure_text_def os_error_def)
qed

text \<open>
  C1 as stated includes the plugin-name validation among the stages whose failure is
  reported. The validation is a guard before the \<open>try\<close> statement: a name that fails it
  makes \<open>run_coding_task\<close> raise \<open>ValueError\<close> at once, with no request sent.
\<close>

theorem run_coding_task_invalid_name_reports_nothing:
  "run_coding_task
      (demo_host (Tool_exit 0 []) (Completed 0 stdout_done []) (Inr json_done) (Inr 200))
      ''t1'' ''hi'' ''Bad_Name'' \<lparr>fs = fs_bare, trace = []\<rparr>
   = (Inl (Exn ValueError (''Invalid plugin name: '' @ py_repr ''Bad_Name'')),
      \<lparr>fs = fs_bare, trace = []\<rparr>)
   \<and> posted (trace (snd (run_coding_task
      (demo_host (Tool_exit 0 []) (Completed 0 stdout_done []) (Inr json_done) (Inr 200))
      ''t1'' ''hi'' ''Bad_Name'' \<lparr>fs = fs_bare, trace = []\<rparr>))) = []"
proof -
  have "\<not> PLUGIN_NAME_RE_match ''Bad_Name''"
    by (simp add: PLUGIN_NAME_RE_match_def plugin_name_char_def)
  then show ?thesis by (simp add: run_coding_task_invalid)
qed

text \<open>
  The other ways a run ends without a request: the environment file cannot be read or
  names no model (both before the \<open>try\<close> statement), or teardown raises.
\<close>

lemma run_coding_task_env_fails:
  assumes "PLUGIN_NAME_RE_match plugin" and "fst (read_coder_env w) = Inl e"
  shows "run_coding_task h task_id message plugin w =
           (Inl e, w\<lparr>trace := trace w @ [Print (''[stavrobot-coder] Starting coding task '' @ task_id
                                                 @ '' for plugin '' @ py_repr plugin)]\<rparr>)"
proof -
  let ?w1 = "w\<lparr>trace := trace w @ [Print (''[stavrobot-coder] Starting coding task '' @ task_id
                                         @ '' for plugin '' @ py_repr plugin)]\<rparr>"
  have "read_coder_env ?w1 = (Inl e, ?w1)"
    using assms(2) read_coder_env_world[of ?w1] read_coder_env_trace[where w = w]
    by (metis prod.collapse)
  then show ?thesis
    using assms(1)
    by (simp add: run_coding_task_def seq_def print_def emit_def)
qed

lemma run_coding_task_no_model:
  assumes "PLUGIN_NAME_RE_match plugin" and "fst (read_coder_env w) = Inr env"
    and "env ''MODEL'' = None"
  shows "run_coding_task h task_id message plugin w =
           (Inl (Exn KeyError (py_repr ''MODEL'')),
            w\<lparr>trace := trace w @ [Print (''[stavrobot-coder] Starting coding task '' @ task_id
                                          @ '' for plugin '' @ py_repr plugin)]\<rparr>)"
proof -
  let ?w1 = "w\<lparr>trace := trace w @ [Print (''[stavrobot-coder] Starting coding task '' @ task_id
                                         @ '' for plugin '' @ py_repr plugin)]\<rparr>"
  have "read_coder_env ?w1 = (Inr env, ?w1)"
    using assms(2) read_coder_env_world[of ?w1] read_coder_env_trace[where w = w]
    by (metis prod.collapse)
  then show ?thesis
    using assms(1,3)
    by (simp add: run_coding_task_def seq_def print_def emit_def raise_def)
qed

lemma run_coding_task_teardown_raises:
  assumes "PLUGIN_NAME_RE_match plugin"
    and "fst (read_coder_env w) = Inr env" and "env ''MODEL'' = Some model"
    and "try_block h task_id message plugin model (os_path_join PLUGINS_DIR plugin)
           (w\<lparr>trace := trace w @ [Print (''[stavrobot-coder] Starting coding task '' @ task_id
                                         @ '' for plugin '' @ py_repr plugin)]\<rparr>)
         = (Inr (txt, True), w4)"
    and "teardown_plugin_credentials (os_path_join PLUGINS_DIR plugin) w4 = (Inl e, wt)"
  shows "run_coding_task h task_id message plugin w = (Inl e, wt)"
  using run_coding_task_unfold[OF assms(1-4)] assms(5) by (simp add: seq_Inl)

subsection \<open>The launch of the agent\<close>

lemma str_600: "py_str_int TASK_TIMEOUT_SECONDS = ''600''"
  by code_simp

lemma agent_run:
  "subprocess_run_agent h req w =
     (case run_agent h req (fs w) of
        (Completed rc out err, f') \<Rightarrow>
          (Inr (rc, out, err), w\<lparr>trace := trace w @ [Run_agent req], fs := f'\<rparr>)
      | (Timed_out, f') \<Rightarrow>
          (Inl (Exn TimeoutExpired
                 (''Command '' @ [CHR 0x27] @ ''['' @ py_join '', '' (map py_repr (argv req)) @ '']''
                  @ [CHR 0x27] @ '' timed out after '' @ py_str_int (timeout req) @ '' seconds'')),
           w\<lparr>trace := trace w @ [Run_agent req], fs := f'\<rparr>)
      | (Proc_raise e, f') \<Rightarrow> (Inl e, w\<lparr>trace := trace w @ [Run_agent req], fs := f'\<rparr>))"
  by (simp add: subprocess_run_agent_def seq_def emit_def split: prod.splits proc_outcome.splits)

lemma launch_timed_out:
  assumes "run_agent h (agent_request message plugin model cwd_path uid gid) (fs w) = (Timed_out, f')"
  shows "\<exists>e. exn_class_of e = TimeoutExpired
           \<and> launch h task_id message plugin model cwd_path uid gid w =
               (Inl e, w\<lparr>trace := trace w @
                  [Print (''[stavrobot-coder] Running as uid='' @ py_str_int uid @ '' gid=''
                          @ py_str_int gid @ '' in '' @ cwd_path),
                   Run_agent (agent_request message plugin model cwd_path uid gid)],
                  fs := f'\<rparr>)"
  using assms
  by (simp add: launch_def seq_def print_def emit_def agent_run)

lemma launch_completed:
  assumes "run_agent h (agent_request message plugin model cwd_path uid gid) (fs w)
             = (Completed rc out err, f')"
  shows "\<exists>evs. list_all quiet_event evs
           \<and> launch h task_id message plugin model cwd_path uid gid w =
               (parse_output h rc out err,
                w\<lparr>trace := trace w @
                  [Print (''[stavrobot-coder] Running as uid='' @ py_str_int uid @ '' gid=''
                          @ py_str_int gid @ '' in '' @ cwd_path),
                   Run_agent (agent_request message plugin model cwd_path uid gid)] @ evs,
                  fs := f'\<rparr>)"
proof (cases "err = []")
  case True
  with assms have "launch h task_id message plugin model cwd_path uid gid w =
               (parse_output h rc out err,
                w\<lparr>trace := trace w @
                  [Print (''[stavrobot-coder] Running as uid='' @ py_str_int uid @ '' gid=''
                          @ py_str_int gid @ '' in '' @ cwd_path),
                   Run_agent (agent_request message plugin model cwd_path uid gid)] @
                  [Print (''[stavrobot-coder] Task '' @ task_id @ '' subprocess exited with code ''
                          @ py_str_int rc),
                   Print (''[stavrobot-coder] Task '' @ task_id @ '' stdout: '' @ out)],
                  fs := f'\<rparr>)"
    by (simp add: launch_def seq_def print_def emit_def agent_run return_def lift_def raise_def
        split: sum.splits)
  moreover have "list_all quiet_event
                  [Print (''[stavrobot-coder] Task '' @ task_id @ '' subprocess exited with code ''
                          @ py_str_int rc),
                   Print (''[stavrobot-coder] Task '' @ task_id @ '' stdout: '' @ out)]"
    by simp
  ultimately show ?thesis by blast
next
  case False
  with assms have "launch h task_id message plugin model cwd_path uid gid w =
               (parse_output h rc out err,
                w\<lparr>trace := trace w @
                  [Print (''[stavrobot-coder] Running as uid='' @ py_str_int uid @ '' gid=''
                          @ py_str_int gid @ '' in '' @ cwd_path),
                   Run_agent (agent_request message plugin model cwd_path uid gid)] @
                  [Print (''[stavrobot-coder] Task '' @ task_id @ '' subprocess exited with code ''
                          @ py_str_int rc),
                   Print (''[stavrobot-coder] Task '' @ task_id @ '' stdout: '' @ out),
                   Print (''[stavrobot-coder] Task '' @ task_id @ '' stderr: '' @ err)],
                  fs := f'\<rparr>)"
    by (simp add: launch_def seq_def print_def emit_def agent_run return_def lift_def raise_def
        split: sum.splits)
  moreover have "list_all quiet_event
                  [Print (''[stavrobot-coder] Task '' @ task_id @ '' subprocess exited with code ''
                          @ py_str_int rc),
                   Print (''[stavrobot-coder] Task '' @ task_id @ '' stdout: '' @ out),
                   Print (''[stavrobot-coder] Task '' @ task_id @ '' stderr: '' @ err)]"
    by simp
  ultimately show ?thesis by blast
qed

lemma launched_quiet: "list_all quiet_event evs \<Longrightarrow> launched evs = []"
proof (induction evs)
  case Nil
  then show ?case by simp
next
  case (Cons ev evs)
  then show ?case by (cases ev) simp_all
qed

lemma launch_launches_once:
  "launched (trace (snd (launch h task_id message plugin model cwd_path uid gid w)))
     = launched (trace w) @ [agent_request message plugin model cwd_path uid gid]"
proof (cases "run_agent h (agent_request message plugin model cwd_path uid gid) (fs w)")
  case (Pair outcome f')
  show ?thesis
  proof (cases outcome)
    case (Completed rc out err)
    with Pair launch_completed[of h message plugin model cwd_path uid gid w rc out err f' task_id]
    show ?thesis by (auto simp: launched_append launched_quiet)
  next
    case Timed_out
    with Pair launch_timed_out[of h message plugin model cwd_path uid gid w f' task_id]
    show ?thesis by (auto simp: launched_append)
  next
    case (Proc_raise e)
    with Pair show ?thesis
      by (simp add: launch_def seq_def print_def emit_def agent_run launched_append)
  qed
qed

lemma launched_after_quiet:
  "adds_only quiet_event m \<Longrightarrow> m w = (r, w') \<Longrightarrow> launched (trace w') = launched (trace w)"
  using quiet_posted(2)[of m w] by simp

lemma posted_after_quiet:
  "adds_only quiet_event m \<Longrightarrow> m w = (r, w') \<Longrightarrow> posted (trace w') = posted (trace w)"
  using quiet_posted(1)[of m w] by simp

lemma teardown_extends_trace:
  "teardown_plugin_credentials d w = (r, w') \<Longrightarrow> prefix (trace w) (trace w')"
  using quiet_teardown[of d] unfolding adds_only_def by (metis prefixI snd_conv)

text \<open>What the whole run comes to once provisioning and cache preparation have succeeded.\<close>

lemma run_through_launch:
  assumes m: "PLUGIN_NAME_RE_match plugin"
    and env: "fst (read_coder_env w) = Inr env" "env ''MODEL'' = Some model"
    and d: "cwd_path = os_path_join PLUGINS_DIR plugin"
    and w1: "w1 = w\<lparr>trace := trace w @ [Print (''[stavrobot-coder] Starting coding task '' @ task_id
                                             @ '' for plugin '' @ py_repr plugin)]\<rparr>"
    and pr: "provision h plugin cwd_path w1 = (Inr (uid, gid), w2)"
    and pc: "prepare_cache_dir plugin uid gid w2 = (Inr (), w3)"
    and tb: "try_block h task_id message plugin model cwd_path w1 = (Inr (tx, flag), w4)"
    and td: "teardown_plugin_credentials cwd_path w4 = (rt, wt)"
    and run: "run_coding_task h task_id message plugin w = (r, w')"
  shows "flag"
    and "launched (trace w') = launched (trace w) @ [agent_request message plugin model cwd_path uid gid]"
    and "prefix (trace wt) (trace w')" and "fs w' = fs wt"
    and "rt = Inr () \<Longrightarrow> posted (trace w') = posted (trace w) @ [result_request tx]"
    and "rt \<noteq> Inr () \<Longrightarrow> posted (trace w') = posted (trace w) \<and> r = rt \<and> w' = wt"
proof -
  let ?req = "agent_request message plugin model cwd_path uid gid"
  let ?p = "''[stavrobot-coder] Posting result for task '' @ task_id
                          @ '', length: '' @ py_str_int (int (length tx))"
  have ex: "execute h task_id message plugin model cwd_path uid gid w2 =
              launch h task_id message plugin model cwd_path uid gid w3"
    using pc by (simp add: execute_def seq_Inr)
  obtain lr w3' where l: "launch h task_id message plugin model cwd_path uid gid w3 = (lr, w3')"
    by (cases "launch h task_id message plugin model cwd_path uid gid w3") auto
  have l3': "launched (trace w3') = launched (trace w3) @ [?req]"
    using launch_launches_once[of h task_id message plugin model cwd_path uid gid w3] l by simp
  have l2: "launched (trace w2) = launched (trace w)"
    using launched_after_quiet[OF quiet_provision pr] w1 by (simp add: launched_append)
  have l3: "launched (trace w3) = launched (trace w2)"
    by (rule launched_after_quiet[OF quiet_prepare_cache_dir pc])
  show flag: "flag"
  proof (cases lr)
    case (Inl e)
    with try_block_execute_fails[OF pr, of task_id message model e w3'] ex l tb show ?thesis by simp
  next
    case (Inr res)
    with try_block_succeeds[OF pr, of task_id message model res w3'] ex l tb show ?thesis by simp
  qed
  have l4: "launched (trace w4) = launched (trace w) @ [?req]"
  proof (cases lr)
    case (Inl e)
    with try_block_execute_fails[OF pr, of task_id message model e w3'] ex l tb l3' l3 l2
    show ?thesis by (auto simp: launched_append)
  next
    case (Inr res)
    with try_block_succeeds[OF pr, of task_id message model res w3'] ex l tb l3' l3 l2
    show ?thesis by auto
  qed
  have p4: "posted (trace w4) = posted (trace w)"
    using no_post_try_block[of h task_id message plugin model cwd_path w1] tb w1
    by (simp add: posted_append)
  have lt: "launched (trace wt) = launched (trace w4)"
    by (rule launched_after_quiet[OF quiet_teardown td])
  have pt: "posted (trace wt) = posted (trace w4)"
    by (rule posted_after_quiet[OF quiet_teardown td])
  have unfold: "run_coding_task h task_id message plugin w =
           seq (teardown_plugin_credentials cwd_path)
             (\<lambda>_. seq (print ?p) (\<lambda>_. post_result h tx)) w4"
    using run_coding_task_unfold[OF m env, of h task_id message tx flag w4] tb flag d w1 by simp
  have raised: "r = rt \<and> w' = wt" if "rt \<noteq> Inr ()"
  proof -
    from that obtain e where "rt = Inl e" by (cases rt) auto
    with unfold td run show ?thesis by (simp add: seq_Inl)
  qed
  have returned: "(r, w') = seq (print ?p) (\<lambda>_. post_result h tx) wt" if "rt = Inr ()"
    using unfold td run that by (simp add: seq_Inr)
  have ext: "trace w' = trace wt @ [Print ?p, Urlopen (result_request tx)]
           \<or> (\<exists>status. trace w' = trace wt @ [Print ?p, Urlopen (result_request tx),
                  Print (''[stavrobot-coder] Result posted, HTTP '' @ py_str_int status)])"
    and fsw: "fs w' = fs wt" if "rt = Inr ()"
    using returned[OF that]
    by (auto simp: finish_after_teardown split: sum.splits)
  show "launched (trace w') = launched (trace w) @ [?req]"
  proof (cases "rt = Inr ()")
    case True
    from ext[OF True] lt l4 show ?thesis by (auto simp: launched_append)
  next
    case False
    from raised[OF False] lt l4 show ?thesis by simp
  qed
  show "prefix (trace wt) (trace w')"
  proof (cases "rt = Inr ()")
    case True
    from ext[OF True] show ?thesis by auto
  next
    case False
    from raised[OF False] show ?thesis by simp
  qed
  show "fs w' = fs wt"
  proof (cases "rt = Inr ()")
    case True
    then show ?thesis by (rule fsw)
  next
    case False
    from raised[OF False] show ?thesis by simp
  qed
  show "posted (trace w') = posted (trace w) @ [result_request tx]" if "rt = Inr ()"
    using ext[OF that] pt p4 by (auto simp: posted_append)
  show "posted (trace w') = posted (trace w) \<and> r = rt \<and> w' = wt" if "rt \<noteq> Inr ()"
    using raised[OF that] pt p4 by simp
qed

subsection \<open>The example run\<close>

lemma demo_matches: "PLUGIN_NAME_RE_match ''demo''"
  by (simp add: PLUGIN_NAME_RE_match_def plugin_name_char_def)

lemma demo_cwd: "os_path_join PLUGINS_DIR ''demo'' = ''/plugins/demo''"
  by (simp add: os_path_join_def PLUGINS_DIR_def)

lemma components_plugin_dir: "path_components ''/plugins/demo'' = [''plugins'', ''demo'']"
  by (simp add: path_components_def)

lemma components_plugins: "path_components ''/plugins'' = [''plugins'']"
  by (simp add: path_components_def)

lemma bare_stat: "os_stat fs_bare ''/plugins/demo'' = Inr plugin_meta"
  by (simp add: os_stat_def node_at_def locate_def components_plugin_dir fs_bare_def base_entries_def)

lemma prefixes_claude_dir:
  "path_prefixes ''/plugins/demo/.claude'' = [''/plugins'', ''/plugins/demo'', ''/plugins/demo/.claude'']"
  by (simp add: path_prefixes_def is_abs_def upt_rec)

lemma bare_makedirs:
  "fs_makedirs ''/plugins/demo/.claude'' fs_bare =
     Inr (fs_bare([''plugins'', ''demo'', ''.claude''] \<mapsto> Dir \<lparr>st_uid = 0, st_gid = 0, st_mode = 493\<rparr>))"
  by (simp add: fs_makedirs_def prefixes_claude_dir os_path_exists_def os_stat_def node_at_def
      locate_def components_plugin_dir components_plugins components_claude_dir fs_mkdir_def
      fs_bare_def base_entries_def plugin_meta_def root_meta_def)


lemma fs_do_run:
  "fs_do c f w =
     (case f (fs w) of
        Inl e \<Rightarrow> (Inl e, w\<lparr>trace := trace w @ [Fs c]\<rparr>)
      | Inr f' \<Rightarrow> (Inr (), w\<lparr>trace := trace w @ [Fs c], fs := f'\<rparr>))"
  by (simp add: fs_do_def seq_def emit_def split: sum.splits)

lemma setup_copy:
  "fs_copy2 CODER_CREDENTIALS_PATH ''/plugins/demo/.claude/.credentials.json''
     (fs_bare([''plugins'', ''demo'', ''.claude''] \<mapsto> Dir \<lparr>st_uid = 0, st_gid = 0, st_mode = 493\<rparr>)) =
   Inr (fs_bare([''plugins'', ''demo'', ''.claude''] \<mapsto> Dir \<lparr>st_uid = 0, st_gid = 0, st_mode = 493\<rparr>,
                [''plugins'', ''demo'', ''.claude'', ''.credentials.json''] \<mapsto>
                   File ''stale'' \<lparr>st_uid = 0, st_gid = 0, st_mode = 493\<rparr>))"
  by (simp add: fs_copy2_def Let_def os_path_isdir_def node_at_def locate_def
      components_plugin_credentials components_shared_credentials CODER_CREDENTIALS_PATH_def
      fs_bare_def base_entries_def root_meta_def)

lemma setup_meta:
  assumes "f [''plugins''] = Some (Dir root_meta)" and "f [''plugins'', ''demo''] = Some (Dir plugin_meta)"
    and "f [''plugins'', ''demo'', ''.claude''] = Some (Dir m)"
  shows "update_meta g ''/plugins/demo/.claude'' f = Inr (f([''plugins'', ''demo'', ''.claude''] \<mapsto> Dir (g m)))"
  using assms by (simp add: update_meta_def node_at_def locate_def components_claude_dir)

lemma setup_meta_file:
  assumes "f [''plugins''] = Some (Dir root_meta)" and "f [''plugins'', ''demo''] = Some (Dir plugin_meta)"
    and "f [''plugins'', ''demo'', ''.claude''] = Some (Dir m)"
    and "f [''plugins'', ''demo'', ''.claude'', ''.credentials.json''] = Some (File c m')"
  shows "update_meta g ''/plugins/demo/.claude/.credentials.json'' f =
           Inr (f([''plugins'', ''demo'', ''.claude'', ''.credentials.json''] \<mapsto> File c (g m')))"
  using assms by (simp add: update_meta_def node_at_def locate_def components_plugin_credentials)

lemma bare_plugins: "fs_bare [''plugins''] = Some (Dir root_meta)"
  "fs_bare [''plugins'', ''demo''] = Some (Dir plugin_meta)"
  by (simp_all add: fs_bare_def base_entries_def)

lemma demo_setup:
  assumes "fs v = fs_bare"
  shows "fst (setup_plugin_credentials ''/plugins/demo'' 1001 1001 v) = Inr ()
       \<and> fs (snd (setup_plugin_credentials ''/plugins/demo'' 1001 1001 v)) = fs_after_setup"
  using assms
  by (simp add: setup_plugin_credentials_def Let_def join_claude_dir join_plugin_credentials
      seq_def fs_ask_def return_def bare_not_islink os_makedirs_def shutil_copy2_def os_chown_def
      os_chmod_def fs_do_run bare_makedirs setup_copy fs_chown_def fs_chmod_def setup_meta
      setup_meta_file bare_plugins set_owner_def fs_after_setup_def fun_upd_twist)


lemma demo_ensure:
  "\<exists>v'. ensure_plugin_user (demo_host (Tool_exit 0 []) a l u) ''demo'' 1001 1001 v = (Inr (), v')
        \<and> fs v' = fs v"
  using ensure_plugin_user_exists[where h = "demo_host (Tool_exit 0 []) a l u" and ?rc1.0 = 0
      and ?rc2.0 = 0 and ?err1.0 = "[]" and ?err2.0 = "[]" and plugin_name = "''demo''"
      and uid = 1001 and gid = 1001 and w = v]
  by (simp add: demo_host_def)

lemma demo_provision:
  assumes "fs v = fs_bare"
  shows "\<exists>w2. provision (demo_host (Tool_exit 0 []) a l u) ''demo'' ''/plugins/demo'' v
                = (Inr (1001, 1001), w2) \<and> fs w2 = fs_after_setup"
proof -
  from demo_ensure[of a l u v] obtain v' where
    e: "ensure_plugin_user (demo_host (Tool_exit 0 []) a l u) ''demo'' 1001 1001 v = (Inr (), v')"
    and f: "fs v' = fs_bare" using assms by auto
  from demo_setup[OF f] obtain w2 where
    s: "setup_plugin_credentials ''/plugins/demo'' 1001 1001 v' = (Inr (), w2)"
    and f2: "fs w2 = fs_after_setup"
    by (metis prod.collapse)
  have "provision (demo_host (Tool_exit 0 []) a l u) ''demo'' ''/plugins/demo'' v
          = (Inr (1001, 1001), w2)"
    using assms e s
    by (simp add: provision_def seq_def fs_try_def bare_stat plugin_meta_def return_def)
  with f2 show ?thesis by blast
qed

lemma prefixes_cache_dir:
  "path_prefixes ''/cache/demo/uv'' = [''/cache'', ''/cache/demo'', ''/cache/demo/uv'']"
  by (simp add: path_prefixes_def is_abs_def upt_rec)

lemma components_cache:
  "path_components ''/cache'' = [''cache'']"
  "path_components ''/cache/demo'' = [''cache'', ''demo'']"
  "path_components ''/cache/demo/uv'' = [''cache'', ''demo'', ''uv'']"
  by (simp_all add: path_components_def)

lemma setup_cache: "fs_after_setup [''cache''] = Some (Dir root_meta)"
  "fs_after_setup [''cache'', ''demo''] = None"
  "fs_after_setup [''cache'', ''demo'', ''uv''] = None"
  by (simp_all add: fs_after_setup_def fs_bare_def base_entries_def)

lemma demo_prepare:
  assumes "fs v = fs_after_setup"
  shows "fst (prepare_cache_dir ''demo'' 1001 1001 v) = Inr ()
       \<and> fs (snd (prepare_cache_dir ''demo'' 1001 1001 v)) = fs_after_cache"
  using assms
  by (simp add: prepare_cache_dir_def Let_def seq_def os_makedirs_def os_chown_def fs_do_run
      fs_makedirs_def prefixes_cache_dir os_path_exists_def os_stat_def node_at_def locate_def
      components_cache setup_cache fs_mkdir_def fs_chown_def update_meta_def set_owner_def
      fs_after_cache_def fun_upd_twist)


lemma cache_entries:
  "fs_after_cache [''plugins''] = Some (Dir root_meta)"
  "fs_after_cache [''plugins'', ''demo''] = Some (Dir plugin_meta)"
  "fs_after_cache [''plugins'', ''demo'', ''.claude''] =
     Some (Dir \<lparr>st_uid = 1001, st_gid = 1001, st_mode = 448\<rparr>)"
  "fs_after_cache [''plugins'', ''demo'', ''.claude'', ''.credentials.json''] =
     Some (File ''stale'' \<lparr>st_uid = 1001, st_gid = 1001, st_mode = 384\<rparr>)"
  "fs_after_cache [''home''] = Some (Dir root_meta)"
  "fs_after_cache [''home'', ''coder''] = Some (Dir root_meta)"
  "fs_after_cache [''home'', ''coder'', ''.claude''] = Some (Dir root_meta)"
  "fs_after_cache [''home'', ''coder'', ''.claude'', ''.credentials.json''] =
     Some (File ''stale'' root_meta)"
  by (simp_all add: fs_after_cache_def fs_after_setup_def fs_bare_def base_entries_def)

lemma demo_teardown:
  assumes "fs v = fs_after_cache"
  shows "fst (teardown_plugin_credentials ''/plugins/demo'' v) = Inr ()
       \<and> fs (snd (teardown_plugin_credentials ''/plugins/demo'' v))
           [''plugins'', ''demo'', ''.claude'', ''.credentials.json''] = None"
proof -
  have nl: "\<not> os_path_islink (fs v) ''/plugins/demo/.claude''"
    using assms
    by (simp add: os_path_islink_def node_at_def locate_def components_claude_dir cache_entries)
  have ex: "os_path_exists (fs v) ''/plugins/demo/.claude/.credentials.json''"
    using assms
    by (simp add: os_path_exists_def os_stat_def node_at_def locate_def
        components_plugin_credentials cache_entries)
  have cp: "fs_copy2 ''/plugins/demo/.claude/.credentials.json'' CODER_CREDENTIALS_PATH (fs v) =
              Inr (fs_after_cache([''home'', ''coder'', ''.claude'', ''.credentials.json''] \<mapsto>
                     File ''stale'' (root_meta\<lparr>st_mode := 384\<rparr>)))"
    using assms
    by (simp add: fs_copy2_def Let_def os_path_isdir_def node_at_def locate_def
        components_plugin_credentials components_shared_credentials CODER_CREDENTIALS_PATH_def
        cache_entries)
  have rm: "fs_rmtree_ignore_errors ''/plugins/demo/.claude''
              (fs_after_cache([''home'', ''coder'', ''.claude'', ''.credentials.json''] \<mapsto>
                     File ''stale'' (root_meta\<lparr>st_mode := 384\<rparr>)))
              [''plugins'', ''demo'', ''.claude'', ''.credentials.json''] = None"
    by (simp add: fs_rmtree_ignore_errors_def node_at_def locate_def components_claude_dir
        cache_entries)
  from teardown_present_file[OF nl join_claude_dir[symmetric] join_plugin_credentials[symmetric] ex]
    cp rm
  show ?thesis by simp
qed

lemma demo_stage:
  assumes "fs v = fs_bare"
  shows "\<exists>w2 w3.
           provision (demo_host (Tool_exit 0 []) a l u) ''demo'' (os_path_join PLUGINS_DIR ''demo'') v
             = (Inr (1001, 1001), w2)
         \<and> prepare_cache_dir ''demo'' 1001 1001 w2 = (Inr (), w3)
         \<and> fs w3 = fs_after_cache
         \<and> run_agent (demo_host (Tool_exit 0 []) a l u) req (fs w3) = (a, fs_after_cache)"
proof -
  from demo_provision[OF assms, of a l u] obtain w2 where
    p: "provision (demo_host (Tool_exit 0 []) a l u) ''demo'' ''/plugins/demo'' v = (Inr (1001, 1001), w2)"
    and f2: "fs w2 = fs_after_setup" by blast
  from demo_prepare[OF f2] obtain w3 where
    c: "prepare_cache_dir ''demo'' 1001 1001 w2 = (Inr (), w3)" and f3: "fs w3 = fs_after_cache"
    by (metis prod.collapse)
  have "run_agent (demo_host (Tool_exit 0 []) a l u) req (fs w3) = (a, fs_after_cache)"
    using f3 by (simp add: demo_host_def)
  with p c f3 show ?thesis by (auto simp: demo_cwd)
qed

lemma model_sonnet: "[''MODEL'' \<mapsto> ''sonnet''] ''MODEL'' = Some ''sonnet''"
  by simp

subsection \<open>Timeout\<close>

lemma try_block_after_launch:
  assumes "provision h plugin cwd_path w1 = (Inr (uid, gid), w2)"
    and "prepare_cache_dir plugin uid gid w2 = (Inr (), w3)"
    and "launch h task_id message plugin model cwd_path uid gid w3 = (lr, w3')"
  shows "\<exists>w4. try_block h task_id message plugin model cwd_path w1 =
                (Inr (case lr of Inl e \<Rightarrow> failure_text e | Inr res \<Rightarrow> res, True), w4)
              \<and> fs w4 = fs w3'"
proof -
  have ex: "execute h task_id message plugin model cwd_path uid gid w2 = (lr, w3')"
    using assms(2,3) by (simp add: execute_def seq_Inr)
  show ?thesis
  proof (cases lr)
    case (Inl e)
    with try_block_execute_fails[OF assms(1), of task_id message model e w3'] ex
    show ?thesis by simp
  next
    case (Inr res)
    with try_block_succeeds[OF assms(1), of task_id message model res w3'] ex
    show ?thesis by simp
  qed
qed

lemma timeout_text: "exn_class_of e = TimeoutExpired \<Longrightarrow>
  failure_text e = ''Coding task failed: timed out after 600 seconds.''"
  by (simp add: failure_text_def str_600)

text \<open>
  A timed-out subprocess, in terms of what teardown then returns. For every task whose
  subprocess exceeds the timeout (provisioning and cache preparation having succeeded): the result text is \<open>Coding task failed: timed out after
  600 seconds.\<close>, which holds the configured timeout value; the agent is launched exactly
  once in the whole run; teardown runs on the file system the timed-out agent left, and
  the run ends with the file system teardown leaves; when teardown returns, exactly one
  request, carrying that text, is sent to the upstream service, and otherwise none is.
\<close>

theorem timeout_reported_once_and_torn_down:
  assumes "PLUGIN_NAME_RE_match plugin"
    and "fst (read_coder_env w) = Inr env" and "env ''MODEL'' = Some model"
    and "cwd_path = os_path_join PLUGINS_DIR plugin"
    and "w1 = w\<lparr>trace := trace w @ [Print (''[stavrobot-coder] Starting coding task '' @ task_id
                                             @ '' for plugin '' @ py_repr plugin)]\<rparr>"
    and "provision h plugin cwd_path w1 = (Inr (uid, gid), w2)"
    and "prepare_cache_dir plugin uid gid w2 = (Inr (), w3)"
    and "run_agent h (agent_request message plugin model cwd_path uid gid) (fs w3) = (Timed_out, f')"
    and "run_coding_task h task_id message plugin w = (r, w')"
  shows "\<exists>w4 rt wt.
           try_block h task_id message plugin model cwd_path w1 =
             (Inr (''Coding task failed: timed out after 600 seconds.'', True), w4)
         \<and> ''Coding task failed: timed out after 600 seconds.'' =
             ''Coding task failed: timed out after '' @ py_str_int TASK_TIMEOUT_SECONDS @ '' seconds.''
         \<and> launched (trace w') =
             launched (trace w) @ [agent_request message plugin model cwd_path uid gid]
         \<and> fs w4 = f'
         \<and> teardown_plugin_credentials cwd_path w4 = (rt, wt)
         \<and> prefix (trace wt) (trace w') \<and> fs w' = fs wt
         \<and> (rt = Inr () \<longrightarrow>
               posted (trace w') = posted (trace w)
                 @ [result_request ''Coding task failed: timed out after 600 seconds.''])
         \<and> (rt \<noteq> Inr () \<longrightarrow> posted (trace w') = posted (trace w))"
proof -
  from launch_timed_out[OF assms(8), of task_id] obtain e w3' where
    c: "exn_class_of e = TimeoutExpired"
    and l: "launch h task_id message plugin model cwd_path uid gid w3 = (Inl e, w3')"
    and f: "fs w3' = f'"
    by auto
  from try_block_after_launch[OF assms(6,7) l] obtain w4 where
    tb: "try_block h task_id message plugin model cwd_path w1 =
           (Inr (''Coding task failed: timed out after 600 seconds.'', True), w4)"
    and f4: "fs w4 = f'"
    using timeout_text[OF c] f by auto
  obtain rt wt where td: "teardown_plugin_credentials cwd_path w4 = (rt, wt)"
    by (cases "teardown_plugin_credentials cwd_path w4") auto
  note rest = run_through_launch[OF assms(1-7) tb td assms(9)]
  have "''Coding task failed: timed out after 600 seconds.'' =
          ''Coding task failed: timed out after '' @ py_str_int TASK_TIMEOUT_SECONDS @ '' seconds.''"
    by (simp add: str_600)
  with tb f4 td rest(2,3,4,5,6) show ?thesis by blast
qed


theorem timeout_reported_once_and_torn_down_witness:
  "posted (trace (snd (run_coding_task
      (demo_host (Tool_exit 0 []) Timed_out (Inr JNull) (Inr 200))
      ''t1'' ''hi'' ''demo'' \<lparr>fs = fs_bare, trace = []\<rparr>)))
     = [result_request ''Coding task failed: timed out after 600 seconds.'']
   \<and> launched (trace (snd (run_coding_task
      (demo_host (Tool_exit 0 []) Timed_out (Inr JNull) (Inr 200))
      ''t1'' ''hi'' ''demo'' \<lparr>fs = fs_bare, trace = []\<rparr>)))
     = [agent_request ''hi'' ''demo'' ''sonnet'' (os_path_join PLUGINS_DIR ''demo'') 1001 1001]
   \<and> fs (snd (run_coding_task
      (demo_host (Tool_exit 0 []) Timed_out (Inr JNull) (Inr 200))
      ''t1'' ''hi'' ''demo'' \<lparr>fs = fs_bare, trace = []\<rparr>))
        [''plugins'', ''demo'', ''.claude'', ''.credentials.json''] = None"
proof -
  let ?h = "demo_host (Tool_exit 0 []) Timed_out (Inr JNull) (Inr 200)"
  let ?w = "\<lparr>fs = fs_bare, trace = []\<rparr>"
  let ?w1 = "?w\<lparr>trace := trace ?w @ [Print (''[stavrobot-coder] Starting coding task '' @ ''t1''
                                             @ '' for plugin '' @ py_repr ''demo'')]\<rparr>"
  let ?req = "agent_request ''hi'' ''demo'' ''sonnet'' (os_path_join PLUGINS_DIR ''demo'') 1001 1001"
  let ?run = "run_coding_task ?h ''t1'' ''hi'' ''demo'' ?w"
  have "fs ?w1 = fs_bare" by simp
  from demo_stage[OF this, of Timed_out "Inr JNull" "Inr 200" ?req] obtain w2 w3 where
    p: "provision ?h ''demo'' (os_path_join PLUGINS_DIR ''demo'') ?w1 = (Inr (1001, 1001), w2)"
    and c: "prepare_cache_dir ''demo'' 1001 1001 w2 = (Inr (), w3)"
    and a: "run_agent ?h ?req (fs w3) = (Timed_out, fs_after_cache)"
    by blast
  from timeout_reported_once_and_torn_down
         [OF demo_matches bare_read_env model_sonnet refl refl p c a prod.collapse[symmetric]]
  obtain w4 rt wt where
    l: "launched (trace (snd ?run)) = launched (trace ?w) @ [?req]"
    and f4: "fs w4 = fs_after_cache"
    and td: "teardown_plugin_credentials (os_path_join PLUGINS_DIR ''demo'') w4 = (rt, wt)"
    and fw: "fs (snd ?run) = fs wt"
    and ps: "rt = Inr () \<longrightarrow> posted (trace (snd ?run)) = posted (trace ?w)
                 @ [result_request ''Coding task failed: timed out after 600 seconds.'']"
    by blast
  from demo_teardown[OF f4] td have "rt = Inr ()"
    and "fs wt [''plugins'', ''demo'', ''.claude'', ''.credentials.json''] = None"
    by (simp_all add: demo_cwd)
  with l fw ps show ?thesis by simp
qed

subsection \<open>Reading the output of the agent\<close>

lemma launch_completed_result:
  assumes "run_agent h (agent_request message plugin model cwd_path uid gid) (fs w)
             = (Completed rc out err, f')"
  shows "\<exists>w3'. launch h task_id message plugin model cwd_path uid gid w
                 = (parse_output h rc out err, w3') \<and> fs w3' = f'"
  using launch_completed[OF assms, of task_id] by auto



text \<open>
  Output that is not JSON, in terms of what teardown then returns. For every subprocess
  run whose standard output is not blank and is not valid JSON
  (\<open>json.loads\<close> raises \<open>JSONDecodeError\<close>), provisioning and cache preparation having
  succeeded: the \<open>try\<close> statement ends normally, with the result text \<open>Coding task
  failed: \<close> followed by the description of the exception; teardown runs on the file
  system the agent left; and when teardown returns, exactly one request, carrying that
  text, is sent to the upstream service.
\<close>

theorem invalid_json_is_reported_and_torn_down:
  assumes "PLUGIN_NAME_RE_match plugin"
    and "fst (read_coder_env w) = Inr env" and "env ''MODEL'' = Some model"
    and "cwd_path = os_path_join PLUGINS_DIR plugin"
    and "w1 = w\<lparr>trace := trace w @ [Print (''[stavrobot-coder] Starting coding task '' @ task_id
                                             @ '' for plugin '' @ py_repr plugin)]\<rparr>"
    and "provision h plugin cwd_path w1 = (Inr (uid, gid), w2)"
    and "prepare_cache_dir plugin uid gid w2 = (Inr (), w3)"
    and "run_agent h (agent_request message plugin model cwd_path uid gid) (fs w3)
           = (Completed rc out err, f')"
    and "py_strip out \<noteq> []"
    and "json_loads h out = Inl e" and "exn_class_of e = JSONDecodeError"
    and "run_coding_task h task_id message plugin w = (r, w')"
  shows "\<exists>w4 rt wt.
           try_block h task_id message plugin model cwd_path w1 =
             (Inr (''Coding task failed: '' @ py_str_exn e, True), w4)
         \<and> fs w4 = f'
         \<and> teardown_plugin_credentials cwd_path w4 = (rt, wt)
         \<and> prefix (trace wt) (trace w') \<and> fs w' = fs wt
         \<and> (rt = Inr () \<longrightarrow>
               posted (trace w') = posted (trace w)
                 @ [result_request (''Coding task failed: '' @ py_str_exn e)])
         \<and> (rt \<noteq> Inr () \<longrightarrow> posted (trace w') = posted (trace w) \<and> r = rt)"
proof -
  have po: "parse_output h rc out err = Inl e"
    using assms(9,10) by (simp add: parse_output_def)
  from launch_completed_result[OF assms(8), of task_id] po obtain w3' where
    l: "launch h task_id message plugin model cwd_path uid gid w3 = (Inl e, w3')"
    and f: "fs w3' = f'"
    by auto
  have ft: "failure_text e = ''Coding task failed: '' @ py_str_exn e"
    using assms(11) by (simp add: failure_text_def)
  from try_block_after_launch[OF assms(6,7) l] obtain w4 where
    tb: "try_block h task_id message plugin model cwd_path w1 =
           (Inr (''Coding task failed: '' @ py_str_exn e, True), w4)"
    and f4: "fs w4 = f'"
    using ft f by auto
  obtain rt wt where td: "teardown_plugin_credentials cwd_path w4 = (rt, wt)"
    by (cases "teardown_plugin_credentials cwd_path w4") auto
  note rest = run_through_launch[OF assms(1-7) tb td assms(12)]
  from tb f4 td rest(3,4,5,6) show ?thesis by blast
qed

theorem invalid_json_is_reported_and_torn_down_witness:
  "posted (trace (snd (run_coding_task
      (demo_host (Tool_exit 0 []) (Completed 0 ''oops'' [])
         (Inl (Exn JSONDecodeError ''Expecting value: line 1 column 1 (char 0)'')) (Inr 200))
      ''t1'' ''hi'' ''demo'' \<lparr>fs = fs_bare, trace = []\<rparr>)))
     = [result_request ''Coding task failed: Expecting value: line 1 column 1 (char 0)'']
   \<and> fs (snd (run_coding_task
      (demo_host (Tool_exit 0 []) (Completed 0 ''oops'' [])
         (Inl (Exn JSONDecodeError ''Expecting value: line 1 column 1 (char 0)'')) (Inr 200))
      ''t1'' ''hi'' ''demo'' \<lparr>fs = fs_bare, trace = []\<rparr>))
        [''plugins'', ''demo'', ''.claude'', ''.credentials.json''] = None"
proof -
  let ?e = "Exn JSONDecodeError ''Expecting value: line 1 column 1 (char 0)''"
  let ?h = "demo_host (Tool_exit 0 []) (Completed 0 ''oops'' []) (Inl ?e) (Inr 200)"
  let ?w = "\<lparr>fs = fs_bare, trace = []\<rparr>"
  let ?w1 = "?w\<lparr>trace := trace ?w @ [Print (''[stavrobot-coder] Starting coding task '' @ ''t1''
                                             @ '' for plugin '' @ py_repr ''demo'')]\<rparr>"
  let ?req = "agent_request ''hi'' ''demo'' ''sonnet'' (os_path_join PLUGINS_DIR ''demo'') 1001 1001"
  let ?run = "run_coding_task ?h ''t1'' ''hi'' ''demo'' ?w"
  have "fs ?w1 = fs_bare" by simp
  from demo_stage[OF this, of "Completed 0 ''oops'' []" "Inl ?e" "Inr 200" ?req] obtain w2 w3 where
    p: "provision ?h ''demo'' (os_path_join PLUGINS_DIR ''demo'') ?w1 = (Inr (1001, 1001), w2)"
    and c: "prepare_cache_dir ''demo'' 1001 1001 w2 = (Inr (), w3)"
    and a: "run_agent ?h ?req (fs w3) = (Completed 0 ''oops'' [], fs_after_cache)"
    by blast
  have ne: "py_strip ''oops'' \<noteq> []" by (simp add: py_strip_def py_isspace_def)
  have lo: "json_loads ?h ''oops'' = Inl ?e" by (simp add: demo_host_def)
  have cl: "exn_class_of ?e = JSONDecodeError" by simp
  from invalid_json_is_reported_and_torn_down
         [OF demo_matches bare_read_env model_sonnet refl refl p c a ne lo cl prod.collapse[symmetric]]
  obtain w4 rt wt where
    f4: "fs w4 = fs_after_cache"
    and td: "teardown_plugin_credentials (os_path_join PLUGINS_DIR ''demo'') w4 = (rt, wt)"
    and fw: "fs (snd ?run) = fs wt"
    and ps: "rt = Inr () \<longrightarrow> posted (trace (snd ?run)) = posted (trace ?w)
                 @ [result_request (''Coding task failed: '' @ py_str_exn ?e)]"
    by blast
  from demo_teardown[OF f4] td have "rt = Inr ()"
    and "fs wt [''plugins'', ''demo'', ''.claude'', ''.credentials.json''] = None"
    by (simp_all add: demo_cwd)
  with fw ps show ?thesis by simp
qed





subsection \<open>Teardown that raises\<close>

text \<open>
  Line 76 guards the copy with \<open>os.path.exists\<close> only, which also holds of a directory and
  of a link to an existing file, and unlike \<open>rmtree\<close> on line 78 the copy has nothing that
  ignores its errors.
\<close>

lemma cred_dir_entries:
  "fs_cred_dir [''plugins''] = Some (Dir root_meta)"
  "fs_cred_dir [''plugins'', ''demo''] = Some (Dir plugin_meta)"
  "fs_cred_dir [''plugins'', ''demo'', ''.claude''] =
     Some (Dir \<lparr>st_uid = 1001, st_gid = 1001, st_mode = 448\<rparr>)"
  "fs_cred_dir [''plugins'', ''demo'', ''.claude'', ''.credentials.json''] = Some (Dir plugin_meta)"
  "fs_cred_dir [''home''] = Some (Dir root_meta)"
  "fs_cred_dir [''home'', ''coder''] = Some (Dir root_meta)"
  "fs_cred_dir [''home'', ''coder'', ''.claude''] = Some (Dir root_meta)"
  "fs_cred_dir [''home'', ''coder'', ''.claude'', ''.credentials.json''] =
     Some (File ''stale'' root_meta)"
  by (simp_all add: fs_cred_dir_def cache_entries)

lemma cred_link_entries:
  "fs_cred_link [''plugins''] = Some (Dir root_meta)"
  "fs_cred_link [''plugins'', ''demo''] = Some (Dir plugin_meta)"
  "fs_cred_link [''plugins'', ''demo'', ''.claude''] =
     Some (Dir \<lparr>st_uid = 1001, st_gid = 1001, st_mode = 448\<rparr>)"
  "fs_cred_link [''plugins'', ''demo'', ''.claude'', ''.credentials.json''] =
     Some (Link ''/home/coder/.claude/.credentials.json'')"
  "fs_cred_link [''home''] = Some (Dir root_meta)"
  "fs_cred_link [''home'', ''coder''] = Some (Dir root_meta)"
  "fs_cred_link [''home'', ''coder'', ''.claude''] = Some (Dir root_meta)"
  "fs_cred_link [''home'', ''coder'', ''.claude'', ''.credentials.json''] =
     Some (File ''stale'' root_meta)"
  by (simp_all add: fs_cred_link_def cache_entries)

lemma cred_dir_teardown:
  assumes "fs v = fs_cred_dir"
  shows "teardown_plugin_credentials ''/plugins/demo'' v =
           (Inl (Exn IsADirectoryError (''[Errno 21] Is a directory: ''
                   @ py_repr ''/plugins/demo/.claude/.credentials.json'')),
            v\<lparr>trace := trace v @ [Fs (Copy2 ''/plugins/demo/.claude/.credentials.json''
                                             CODER_CREDENTIALS_PATH)]\<rparr>)"
proof -
  have nl: "\<not> os_path_islink (fs v) ''/plugins/demo/.claude''"
    using assms
    by (simp add: os_path_islink_def node_at_def locate_def components_claude_dir cred_dir_entries)
  have ex: "os_path_exists (fs v) ''/plugins/demo/.claude/.credentials.json''"
    using assms
    by (simp add: os_path_exists_def os_stat_def node_at_def locate_def
        components_plugin_credentials cred_dir_entries)
  have cp: "fs_copy2 ''/plugins/demo/.claude/.credentials.json'' CODER_CREDENTIALS_PATH (fs v) =
              Inl (Exn IsADirectoryError (''[Errno 21] Is a directory: ''
                     @ py_repr ''/plugins/demo/.claude/.credentials.json''))"
    using assms
    by (simp add: fs_copy2_def Let_def os_path_isdir_def node_at_def locate_def
        components_plugin_credentials components_shared_credentials CODER_CREDENTIALS_PATH_def
        cred_dir_entries)
  from teardown_present_file[OF nl join_claude_dir[symmetric] join_plugin_credentials[symmetric] ex]
    cp
  show ?thesis by simp
qed

lemma cred_link_teardown:
  assumes "fs v = fs_cred_link"
  shows "teardown_plugin_credentials ''/plugins/demo'' v =
           (Inl (Exn SameFileError (py_repr ''/plugins/demo/.claude/.credentials.json'' @ '' and ''
                   @ py_repr CODER_CREDENTIALS_PATH @ '' are the same file'')),
            v\<lparr>trace := trace v @ [Fs (Copy2 ''/plugins/demo/.claude/.credentials.json''
                                             CODER_CREDENTIALS_PATH)]\<rparr>)"
proof -
  have nl: "\<not> os_path_islink (fs v) ''/plugins/demo/.claude''"
    using assms
    by (simp add: os_path_islink_def node_at_def locate_def components_claude_dir cred_link_entries)
  have ex: "os_path_exists (fs v) ''/plugins/demo/.claude/.credentials.json''"
    using assms
    by (simp add: os_path_exists_def os_stat_def node_at_def locate_def is_abs_def
        components_plugin_credentials components_shared_credentials cred_link_entries)
  have cp: "fs_copy2 ''/plugins/demo/.claude/.credentials.json'' CODER_CREDENTIALS_PATH (fs v) =
              Inl (Exn SameFileError (py_repr ''/plugins/demo/.claude/.credentials.json'' @ '' and ''
                   @ py_repr CODER_CREDENTIALS_PATH @ '' are the same file''))"
    using assms
    by (simp add: fs_copy2_def Let_def os_path_isdir_def node_at_def locate_def is_abs_def
        components_plugin_credentials components_shared_credentials CODER_CREDENTIALS_PATH_def
        cred_link_entries)
  from teardown_present_file[OF nl join_claude_dir[symmetric] join_plugin_credentials[symmetric] ex]
    cp
  show ?thesis by simp
qed

text \<open>
  C4 at two file systems the agent can leave behind, the per-task credential directory
  being a directory and not a link in both. In the first the per-task credential path is
  a directory, in the second it is a link to the shared credential file. In both
  \<open>os.path.exists\<close> holds of the path, so the copy is attempted; it raises
  (\<open>IsADirectoryError\<close> and \<open>SameFileError\<close>), teardown raises with it, the removal of
  the tree is never reached and the file system stays as it was: nothing is copied back
  and the per-task tree is not removed.
\<close>

theorem teardown_raises_when_copy_back_fails:
  "\<not> os_path_islink fs_cred_dir ''/plugins/demo/.claude''
   \<and> os_path_exists fs_cred_dir ''/plugins/demo/.claude/.credentials.json''
   \<and> teardown_plugin_credentials ''/plugins/demo'' \<lparr>fs = fs_cred_dir, trace = []\<rparr> =
       (Inl (Exn IsADirectoryError (''[Errno 21] Is a directory: ''
               @ py_repr ''/plugins/demo/.claude/.credentials.json'')),
        \<lparr>fs = fs_cred_dir,
         trace = [Fs (Copy2 ''/plugins/demo/.claude/.credentials.json'' CODER_CREDENTIALS_PATH)]\<rparr>)
   \<and> \<not> os_path_islink fs_cred_link ''/plugins/demo/.claude''
   \<and> os_path_exists fs_cred_link ''/plugins/demo/.claude/.credentials.json''
   \<and> teardown_plugin_credentials ''/plugins/demo'' \<lparr>fs = fs_cred_link, trace = []\<rparr> =
       (Inl (Exn SameFileError (py_repr ''/plugins/demo/.claude/.credentials.json'' @ '' and ''
               @ py_repr CODER_CREDENTIALS_PATH @ '' are the same file'')),
        \<lparr>fs = fs_cred_link,
         trace = [Fs (Copy2 ''/plugins/demo/.claude/.credentials.json'' CODER_CREDENTIALS_PATH)]\<rparr>)"
proof -
  have a: "\<not> os_path_islink fs_cred_dir ''/plugins/demo/.claude''"
    by (simp add: os_path_islink_def node_at_def locate_def components_claude_dir cred_dir_entries)
  have b: "os_path_exists fs_cred_dir ''/plugins/demo/.claude/.credentials.json''"
    by (simp add: os_path_exists_def os_stat_def node_at_def locate_def
        components_plugin_credentials cred_dir_entries)
  have c: "\<not> os_path_islink fs_cred_link ''/plugins/demo/.claude''"
    by (simp add: os_path_islink_def node_at_def locate_def components_claude_dir cred_link_entries)
  have d: "os_path_exists fs_cred_link ''/plugins/demo/.claude/.credentials.json''"
    by (simp add: os_path_exists_def os_stat_def node_at_def locate_def is_abs_def
        components_plugin_credentials components_shared_credentials cred_link_entries)
  have e: "teardown_plugin_credentials ''/plugins/demo'' \<lparr>fs = fs_cred_dir, trace = []\<rparr> =
       (Inl (Exn IsADirectoryError (''[Errno 21] Is a directory: ''
               @ py_repr ''/plugins/demo/.claude/.credentials.json'')),
        \<lparr>fs = fs_cred_dir,
         trace = [Fs (Copy2 ''/plugins/demo/.claude/.credentials.json'' CODER_CREDENTIALS_PATH)]\<rparr>)"
    using cred_dir_teardown[of "\<lparr>fs = fs_cred_dir, trace = []\<rparr>"] by simp
  have f: "teardown_plugin_credentials ''/plugins/demo'' \<lparr>fs = fs_cred_link, trace = []\<rparr> =
       (Inl (Exn SameFileError (py_repr ''/plugins/demo/.claude/.credentials.json'' @ '' and ''
               @ py_repr CODER_CREDENTIALS_PATH @ '' are the same file'')),
        \<lparr>fs = fs_cred_link,
         trace = [Fs (Copy2 ''/plugins/demo/.claude/.credentials.json'' CODER_CREDENTIALS_PATH)]\<rparr>)"
    using cred_link_teardown[of "\<lparr>fs = fs_cred_link, trace = []\<rparr>"] by simp
  from a b c d e f show ?thesis by blast
qed

text \<open>
  The example task with an agent that replaces its credential file by a directory:
  provisioning and cache preparation succeed as before, and the agent leaves
  \<^term>\<open>fs_cred_dir\<close>.
\<close>

lemma saboteur_stage:
  assumes "fs v = fs_bare"
  shows "\<exists>w2 w3.
           provision (saboteur_host a l u) ''demo'' (os_path_join PLUGINS_DIR ''demo'') v
             = (Inr (1001, 1001), w2)
         \<and> prepare_cache_dir ''demo'' 1001 1001 w2 = (Inr (), w3)
         \<and> run_agent (saboteur_host a l u) req (fs w3) = (a, fs_cred_dir)"
proof -
  have "ensure_plugin_user (saboteur_host a l u) ''demo'' 1001 1001 v =
          (Inr (), v\<lparr>trace := trace v @
             [Run_tool [''groupadd'', ''--system'', ''--gid'', py_str_int 1001, username_of ''demo''],
              Run_tool [''useradd'', ''--system'', ''--no-create-home'', ''--uid'', py_str_int 1001,
                        ''--gid'', py_str_int 1001, username_of ''demo'']]\<rparr>)"
    by (rule ensure_plugin_user_exists[where ?rc1.0 = 0 and ?rc2.0 = 0 and ?err1.0 = "[]"
          and ?err2.0 = "[]"])
       (simp_all add: saboteur_host_def)
  then obtain v' where
    e: "ensure_plugin_user (saboteur_host a l u) ''demo'' 1001 1001 v = (Inr (), v')"
    and f: "fs v' = fs_bare" using assms by auto
  from demo_setup[OF f] obtain w2 where
    s: "setup_plugin_credentials ''/plugins/demo'' 1001 1001 v' = (Inr (), w2)"
    and f2: "fs w2 = fs_after_setup"
    by (metis prod.collapse)
  have p: "provision (saboteur_host a l u) ''demo'' ''/plugins/demo'' v = (Inr (1001, 1001), w2)"
    using assms e s
    by (simp add: provision_def seq_def fs_try_def bare_stat plugin_meta_def return_def)
  from demo_prepare[OF f2] obtain w3 where
    c: "prepare_cache_dir ''demo'' 1001 1001 w2 = (Inr (), w3)" and f3: "fs w3 = fs_after_cache"
    by (metis prod.collapse)
  have "run_agent (saboteur_host a l u) req (fs w3) = (a, fs_cred_dir)"
    using f3 by (simp add: saboteur_host_def fs_cred_dir_def)
  with p c show ?thesis by (auto simp: demo_cwd)
qed

text \<open>What a run of the example comes to when the agent has left its credential file as a
  directory, whatever the \<open>try\<close> statement made of the agent's outcome.\<close>

lemma saboteur_run:
  assumes p: "provision h ''demo'' (os_path_join PLUGINS_DIR ''demo'')
               (\<lparr>fs = fs_bare, trace = []\<rparr>\<lparr>trace := trace \<lparr>fs = fs_bare, trace = []\<rparr> @
                  [Print (''[stavrobot-coder] Starting coding task '' @ ''t1''
                          @ '' for plugin '' @ py_repr ''demo'')]\<rparr>) = (Inr (1001, 1001), w2)"
    and c: "prepare_cache_dir ''demo'' 1001 1001 w2 = (Inr (), w3)"
    and l: "launch h ''t1'' ''hi'' ''demo'' ''sonnet'' (os_path_join PLUGINS_DIR ''demo'') 1001 1001 w3
              = (lr, w3')"
    and f: "fs w3' = fs_cred_dir"
  shows "fst (run_coding_task h ''t1'' ''hi'' ''demo'' \<lparr>fs = fs_bare, trace = []\<rparr>) =
           Inl (Exn IsADirectoryError (''[Errno 21] Is a directory: ''
                  @ py_repr ''/plugins/demo/.claude/.credentials.json''))"
    and "posted (trace (snd (run_coding_task h ''t1'' ''hi'' ''demo'' \<lparr>fs = fs_bare, trace = []\<rparr>))) = []"
    and "launched (trace (snd (run_coding_task h ''t1'' ''hi'' ''demo'' \<lparr>fs = fs_bare, trace = []\<rparr>))) =
           [agent_request ''hi'' ''demo'' ''sonnet'' (os_path_join PLUGINS_DIR ''demo'') 1001 1001]"
    and "fs (snd (run_coding_task h ''t1'' ''hi'' ''demo'' \<lparr>fs = fs_bare, trace = []\<rparr>)) = fs_cred_dir"
proof -
  let ?w = "\<lparr>fs = fs_bare, trace = []\<rparr>"
  let ?d = "os_path_join PLUGINS_DIR ''demo''"
  let ?e = "Exn IsADirectoryError (''[Errno 21] Is a directory: ''
                  @ py_repr ''/plugins/demo/.claude/.credentials.json'')"
  from try_block_after_launch[OF p c l] obtain w4 where
    tb: "try_block h ''t1'' ''hi'' ''demo'' ''sonnet'' ?d
           (?w\<lparr>trace := trace ?w @ [Print (''[stavrobot-coder] Starting coding task '' @ ''t1''
                          @ '' for plugin '' @ py_repr ''demo'')]\<rparr>)
         = (Inr (case lr of Inl e \<Rightarrow> failure_text e | Inr res \<Rightarrow> res, True), w4)"
    and f4: "fs w4 = fs_cred_dir"
    using f by auto
  have td: "teardown_plugin_credentials ?d w4 =
              (Inl ?e, w4\<lparr>trace := trace w4 @ [Fs (Copy2 ''/plugins/demo/.claude/.credentials.json''
                                             CODER_CREDENTIALS_PATH)]\<rparr>)"
    using cred_dir_teardown[OF f4] by (simp add: demo_cwd)
  have ne: "Inl ?e \<noteq> (Inr () :: exn + unit)" by simp
  note rest = run_through_launch[OF demo_matches bare_read_env model_sonnet refl refl p c tb td
      prod.collapse[symmetric]]
  from rest(6)[OF ne]
  have r6: "posted (trace (snd (run_coding_task h ''t1'' ''hi'' ''demo'' ?w))) = posted (trace ?w)"
    and r7: "fst (run_coding_task h ''t1'' ''hi'' ''demo'' ?w) = Inl ?e"
    by blast+
  from r7 show "fst (run_coding_task h ''t1'' ''hi'' ''demo'' ?w) = Inl ?e" .
  from r6 show "posted (trace (snd (run_coding_task h ''t1'' ''hi'' ''demo'' ?w))) = []"
    by simp
  from rest(2)
  show "launched (trace (snd (run_coding_task h ''t1'' ''hi'' ''demo'' ?w))) =
           [agent_request ''hi'' ''demo'' ''sonnet'' ?d 1001 1001]"
    by simp
  from rest(4) f4
  show "fs (snd (run_coding_task h ''t1'' ''hi'' ''demo'' ?w)) = fs_cred_dir"
    by simp
qed

text \<open>
  C5 at a task whose agent replaces its credential file by a directory and then exceeds
  the timeout. Provisioning had succeeded and the agent is launched once; the timeout is
  caught and teardown runs, but teardown raises \<open>IsADirectoryError\<close> from the \<open>finally\<close>
  clause, which has no handler: the run ends with that exception, nothing is sent to the
  upstream service, so no text with the timeout value is reported, and the per-task
  credential directory is still there.
\<close>

theorem timeout_not_reported_when_teardown_raises:
  "fst (run_coding_task (saboteur_host Timed_out (Inr JNull) (Inr 200))
          ''t1'' ''hi'' ''demo'' \<lparr>fs = fs_bare, trace = []\<rparr>) =
     Inl (Exn IsADirectoryError (''[Errno 21] Is a directory: ''
            @ py_repr ''/plugins/demo/.claude/.credentials.json''))
   \<and> posted (trace (snd (run_coding_task (saboteur_host Timed_out (Inr JNull) (Inr 200))
          ''t1'' ''hi'' ''demo'' \<lparr>fs = fs_bare, trace = []\<rparr>))) = []
   \<and> launched (trace (snd (run_coding_task (saboteur_host Timed_out (Inr JNull) (Inr 200))
          ''t1'' ''hi'' ''demo'' \<lparr>fs = fs_bare, trace = []\<rparr>))) =
       [agent_request ''hi'' ''demo'' ''sonnet'' (os_path_join PLUGINS_DIR ''demo'') 1001 1001]
   \<and> fs (snd (run_coding_task (saboteur_host Timed_out (Inr JNull) (Inr 200))
          ''t1'' ''hi'' ''demo'' \<lparr>fs = fs_bare, trace = []\<rparr>))
        [''plugins'', ''demo'', ''.claude''] =
       Some (Dir \<lparr>st_uid = 1001, st_gid = 1001, st_mode = 448\<rparr>)"
proof -
  let ?h = "saboteur_host Timed_out (Inr JNull) (Inr 200)"
  let ?w = "\<lparr>fs = fs_bare, trace = []\<rparr>"
  let ?w1 = "?w\<lparr>trace := trace ?w @ [Print (''[stavrobot-coder] Starting coding task '' @ ''t1''
                                             @ '' for plugin '' @ py_repr ''demo'')]\<rparr>"
  let ?d = "os_path_join PLUGINS_DIR ''demo''"
  let ?req = "agent_request ''hi'' ''demo'' ''sonnet'' ?d 1001 1001"
  have "fs ?w1 = fs_bare" by simp
  from saboteur_stage[OF this, of Timed_out "Inr JNull" "Inr 200" ?req] obtain w2 w3 where
    p: "provision ?h ''demo'' ?d ?w1 = (Inr (1001, 1001), w2)"
    and c: "prepare_cache_dir ''demo'' 1001 1001 w2 = (Inr (), w3)"
    and a: "run_agent ?h ?req (fs w3) = (Timed_out, fs_cred_dir)"
    by blast
  from launch_timed_out[OF a, of "''t1''"] obtain e w3' where
    l: "launch ?h ''t1'' ''hi'' ''demo'' ''sonnet'' ?d 1001 1001 w3 = (Inl e, w3')"
    and f: "fs w3' = fs_cred_dir"
    by auto
  note run = saboteur_run[OF p c l f]
  from run(4) have "fs (snd (run_coding_task ?h ''t1'' ''hi'' ''demo'' ?w))
        [''plugins'', ''demo'', ''.claude''] = Some (Dir \<lparr>st_uid = 1001, st_gid = 1001, st_mode = 448\<rparr>)"
    by (simp add: cred_dir_entries)
  with run(1,2,3) show ?thesis by simp
qed

text \<open>
  C10 at a task whose agent replaces its credential file by a directory and prints
  \<open>oops\<close>, which is not JSON. The decoding error is caught and teardown runs, but
  teardown raises \<open>IsADirectoryError\<close> from the \<open>finally\<close> clause, which has no handler:
  the run ends with that exception, nothing is sent to the upstream service, and the
  per-task credential directory is still there.
\<close>

theorem invalid_json_not_reported_when_teardown_raises:
  "fst (run_coding_task
          (saboteur_host (Completed 0 ''oops'' [])
             (Inl (Exn JSONDecodeError ''Expecting value: line 1 column 1 (char 0)'')) (Inr 200))
          ''t1'' ''hi'' ''demo'' \<lparr>fs = fs_bare, trace = []\<rparr>) =
     Inl (Exn IsADirectoryError (''[Errno 21] Is a directory: ''
            @ py_repr ''/plugins/demo/.claude/.credentials.json''))
   \<and> posted (trace (snd (run_coding_task
          (saboteur_host (Completed 0 ''oops'' [])
             (Inl (Exn JSONDecodeError ''Expecting value: line 1 column 1 (char 0)'')) (Inr 200))
          ''t1'' ''hi'' ''demo'' \<lparr>fs = fs_bare, trace = []\<rparr>))) = []
   \<and> fs (snd (run_coding_task
          (saboteur_host (Completed 0 ''oops'' [])
             (Inl (Exn JSONDecodeError ''Expecting value: line 1 column 1 (char 0)'')) (Inr 200))
          ''t1'' ''hi'' ''demo'' \<lparr>fs = fs_bare, trace = []\<rparr>))
        [''plugins'', ''demo'', ''.claude''] =
       Some (Dir \<lparr>st_uid = 1001, st_gid = 1001, st_mode = 448\<rparr>)"
proof -
  let ?j = "Exn JSONDecodeError ''Expecting value: line 1 column 1 (char 0)''"
  let ?h = "saboteur_host (Completed 0 ''oops'' []) (Inl ?j) (Inr 200)"
  let ?w = "\<lparr>fs = fs_bare, trace = []\<rparr>"
  let ?w1 = "?w\<lparr>trace := trace ?w @ [Print (''[stavrobot-coder] Starting coding task '' @ ''t1''
                                             @ '' for plugin '' @ py_repr ''demo'')]\<rparr>"
  let ?d = "os_path_join PLUGINS_DIR ''demo''"
  let ?req = "agent_request ''hi'' ''demo'' ''sonnet'' ?d 1001 1001"
  have "fs ?w1 = fs_bare" by simp
  from saboteur_stage[OF this, of "Completed 0 ''oops'' []" "Inl ?j" "Inr 200" ?req] obtain w2 w3 where
    p: "provision ?h ''demo'' ?d ?w1 = (Inr (1001, 1001), w2)"
    and c: "prepare_cache_dir ''demo'' 1001 1001 w2 = (Inr (), w3)"
    and a: "run_agent ?h ?req (fs w3) = (Completed 0 ''oops'' [], fs_cred_dir)"
    by blast
  from launch_completed_result[OF a, of "''t1''"] obtain w3' where
    l: "launch ?h ''t1'' ''hi'' ''demo'' ''sonnet'' ?d 1001 1001 w3
          = (parse_output ?h 0 ''oops'' [], w3')"
    and f: "fs w3' = fs_cred_dir"
    by auto
  note run = saboteur_run[OF p c l f]
  from run(4) have "fs (snd (run_coding_task ?h ''t1'' ''hi'' ''demo'' ?w))
        [''plugins'', ''demo'', ''.claude''] = Some (Dir \<lparr>st_uid = 1001, st_gid = 1001, st_mode = 448\<rparr>)"
    by (simp add: cred_dir_entries)
  with run(1,2) show ?thesis by simp
qed

end
